theory Spec2Isabelle
  imports Main
begin

chapter \<open>The model of \<^verbatim>\<open>cli/smartling/project.go\<close>\<close>

section \<open>Strings\<close>

text \<open>
  Go strings are byte strings. \<open>split_on c s\<close> is \<^verbatim>\<open>strings.Split(s, c)\<close> for a
  one-byte separator (never an empty list), \<open>join_on c\<close> is \<^verbatim>\<open>strings.Join\<close>, and
  \<open>find_sub d s\<close> cuts \<open>s\<close> at the first occurrence of \<open>d\<close>.
\<close>

fun split_on :: "char \<Rightarrow> string \<Rightarrow> string list" where
  "split_on sep [] = [[]]"
| "split_on sep (c # cs) =
     (if c = sep then [] # split_on sep cs
      else (case split_on sep cs of
              [] \<Rightarrow> [[c]]
            | x # xs \<Rightarrow> (c # x) # xs))"

fun join_on :: "char \<Rightarrow> string list \<Rightarrow> string" where
  "join_on sep [] = []"
| "join_on sep [x] = x"
| "join_on sep (x # y # ys) = x @ sep # join_on sep (y # ys)"

fun find_sub :: "string \<Rightarrow> string \<Rightarrow> (string \<times> string) option" where
  "find_sub d [] = (if d = [] then Some ([], []) else None)"
| "find_sub d (c # cs) =
     (if take (length d) (c # cs) = d then Some ([], drop (length d) (c # cs))
      else (case find_sub d cs of
              None \<Rightarrow> None
            | Some (pre, rest) \<Rightarrow> Some (c # pre, rest)))"

text \<open>\<^verbatim>\<open>strings.TrimSuffix\<close>.\<close>

definition TrimSuffix :: "string \<Rightarrow> string \<Rightarrow> string" where
  "TrimSuffix s suffix =
     (if length suffix \<le> length s \<and> drop (length s - length suffix) s = suffix
      then take (length s - length suffix) s else s)"

definition newline :: string where
  "newline = [CHR 0x0A]"

definition tab :: string where
  "tab = [CHR 0x09]"

section \<open>Path handling of the Go standard library (Unix-like system)\<close>

text \<open>
  The commands build every remote and local path with \<^verbatim>\<open>path/filepath\<close>. The
  separator is \<^verbatim>\<open>/\<close> and there are no volume names. The functions below follow the
  documented rules of the package, element by element.
\<close>

abbreviation split_path :: "string \<Rightarrow> string list" where
  "split_path \<equiv> split_on CHR ''/''"

abbreviation join_path :: "string list \<Rightarrow> string" where
  "join_path \<equiv> join_on CHR ''/''"

text \<open>
  The element loop of \<^verbatim>\<open>filepath.Clean\<close>. The output built so far is kept as a stack
  of elements, last element first. An empty element and \<^verbatim>\<open>.\<close> are dropped; \<^verbatim>\<open>..\<close>
  removes the last real element when there is one, is dropped at the root of a rooted
  path, and is kept at the front of a relative path; every other element is appended.
\<close>

fun clean_elems :: "bool \<Rightarrow> string list \<Rightarrow> string list \<Rightarrow> string list" where
  "clean_elems rooted st [] = rev st"
| "clean_elems rooted st (e # es) =
     (if e = [] \<or> e = ''.'' then clean_elems rooted st es
      else if e = ''..'' then
        (case st of
           [] \<Rightarrow> if rooted then clean_elems rooted [] es
                 else clean_elems rooted [''..''] es
         | t # st' \<Rightarrow>
             if t = ''..'' then
               (if rooted then clean_elems rooted st es
                else clean_elems rooted (''..'' # st) es)
             else clean_elems rooted st' es)
      else clean_elems rooted (e # st) es)"

definition filepath_Clean :: "string \<Rightarrow> string" where
  "filepath_Clean p =
     (if p = [] then ''.''
      else
        let rooted = (hd p = CHR ''/'');
            out = (if rooted then ''/'' else []) @ join_path (clean_elems rooted [] (split_path p))
        in if out = [] then ''.'' else out)"

text \<open>
  A plain element of a path: not empty, not \<^verbatim>\<open>.\<close>, not \<^verbatim>\<open>..\<close>, and without a
  separator. A path that is the join of plain elements is clean and relative.
\<close>

definition plain_name :: "string \<Rightarrow> bool" where
  "plain_name n = (n \<noteq> [] \<and> n \<noteq> ''.'' \<and> n \<noteq> ''..'' \<and> CHR ''/'' \<notin> set n)"

text \<open>
  \<^verbatim>\<open>filepath.Join\<close>: the elements from the first non-empty one on are joined with the
  separator and cleaned; the result is empty when every element is empty.
\<close>

fun filepath_Join :: "string list \<Rightarrow> string" where
  "filepath_Join [] = []"
| "filepath_Join (e # es) =
     (if e = [] then filepath_Join es else filepath_Clean (join_path (e # es)))"

text \<open>
  \<^verbatim>\<open>filepath.Rel(".", targ)\<close>, the only way the commands call it. With the base
  \<^verbatim>\<open>.\<close> the result is the cleaned target; a rooted target cannot be made relative to
  a relative base and is an error.
\<close>

definition filepath_Rel_dot :: "string \<Rightarrow> string + string" where
  "filepath_Rel_dot targpath =
     (let targ = filepath_Clean targpath
      in if targ = ''.'' then Inr ''.''
         else if hd targ = CHR ''/''
           then Inl (''Rel: can't make '' @ targpath @ '' relative to .'')
         else Inr targ)"

text \<open>
  \<^verbatim>\<open>filepath.Ext\<close>: the suffix beginning at the final dot of the final element; empty
  when that element has no dot.
\<close>

fun ext_scan :: "string \<Rightarrow> string \<Rightarrow> string" where
  "ext_scan [] acc = []"
| "ext_scan (c # rcs) acc =
     (if c = CHR ''/'' then []
      else if c = CHR ''.'' then c # acc
      else ext_scan rcs (c # acc))"

definition filepath_Ext :: "string \<Rightarrow> string" where
  "filepath_Ext p = ext_scan (rev p) []"

text \<open>\<^verbatim>\<open>filepath.Dir\<close>: everything up to and including the last separator, cleaned.\<close>

definition filepath_Dir :: "string \<Rightarrow> string" where
  "filepath_Dir p = filepath_Clean (rev (dropWhile (\<lambda>c. c \<noteq> CHR ''/'') (rev p)))"

text \<open>
  \<^verbatim>\<open>filepath.Base\<close>: the last element, after removing trailing separators; \<^verbatim>\<open>.\<close>
  for the empty path and the separator for a path of separators only.
\<close>

definition filepath_Base :: "string \<Rightarrow> string" where
  "filepath_Base p =
     (if p = [] then ''.''
      else
        let stripped = rev (dropWhile (\<lambda>c. c = CHR ''/'') (rev p));
            last_elem = rev (takeWhile (\<lambda>c. c \<noteq> CHR ''/'') (rev stripped))
        in if last_elem = [] then ''/'' else last_elem)"

section \<open>Formatting of the Go standard library\<close>

definition digit_char :: "nat \<Rightarrow> char" where
  "digit_char d = ''0123456789'' ! (d mod 10)"

fun digits :: "nat \<Rightarrow> string" where
  "digits n = (if n < 10 then [digit_char n] else digits (n div 10) @ [digit_char (n mod 10)])"

declare digits.simps [simp del]

text \<open>The verb \<^verbatim>\<open>%v\<close> (and \<^verbatim>\<open>%d\<close>) of an integer: decimal, with a sign when negative.\<close>

definition itoa :: "int \<Rightarrow> string" where
  "itoa n = (if n < 0 then CHR ''-'' # digits (nat (- n)) else digits (nat n))"

text \<open>The verb \<^verbatim>\<open>%3d\<close>: padded with spaces on the left to a width of three.\<close>

definition fmt_3d :: "int \<Rightarrow> string" where
  "fmt_3d n = replicate (3 - length (itoa n)) CHR '' '' @ itoa n"

text \<open>
  \<^verbatim>\<open>fmt.Fprint\<close> writes its operands one after another and puts a space between two
  operands when neither is a string. \<^verbatim>\<open>fmt.Println\<close> puts a space between all
  operands and ends the line; the commands call it with strings only.
\<close>

datatype operand = OpString string | OpInt int

fun operand_text :: "operand \<Rightarrow> string" where
  "operand_text (OpString s) = s"
| "operand_text (OpInt n) = itoa n"

fun is_string :: "operand \<Rightarrow> bool" where
  "is_string (OpString s) = True"
| "is_string (OpInt n) = False"

fun Fprint :: "operand list \<Rightarrow> string" where
  "Fprint [] = []"
| "Fprint [a] = operand_text a"
| "Fprint (a # b # rest) =
     operand_text a @ (if \<not> is_string a \<and> \<not> is_string b then '' '' else []) @ Fprint (b # rest)"

definition Println :: "string list \<Rightarrow> string" where
  "Println ops = join_on CHR '' '' ops @ newline"

subsection \<open>The column writer\<close>

text \<open>
  \<^verbatim>\<open>tabwriter.NewWriter(os.Stdout, 0, 0, 1, ' ', 0)\<close>: minimal cell width 0, padding
  1, padding with spaces, cells aligned left, no flags. The text is cut into lines at
  newlines and each line into cells at tabs; the last cell of a line is not terminated by
  a tab and belongs to no column. A cell of column \<open>j\<close> is padded to the width of the
  column block it stands in: the lines around it, without a gap, that have a cell in
  column \<open>j\<close>; the width of the block is that of its widest cell plus the padding. Widths
  count bytes, which is the width of the package for ASCII text; the text has no vertical
  tab, form feed or escape byte.
\<close>

definition has_col :: "nat \<Rightarrow> string list \<Rightarrow> bool" where
  "has_col j line = (j + 1 < length line)"

definition col_block :: "nat \<Rightarrow> nat \<Rightarrow> string list list \<Rightarrow> string list list" where
  "col_block j k lines =
     rev (takeWhile (has_col j) (rev (take k lines))) @ takeWhile (has_col j) (drop k lines)"

definition col_width :: "nat \<Rightarrow> string list list \<Rightarrow> nat" where
  "col_width j block = fold max (map (\<lambda>line. length (line ! j) + 1) block) 0"

definition tw_line :: "string list list \<Rightarrow> nat \<Rightarrow> string" where
  "tw_line lines k =
     (let line = lines ! k
      in concat (map (\<lambda>j. (line ! j)
                       @ replicate (col_width j (col_block j k lines) - length (line ! j)) CHR '' '')
                  [0..<length line - 1])
         @ last line)"

definition tabwriter :: "string \<Rightarrow> string" where
  "tabwriter text =
     (let lines = map (split_on (CHR 0x09)) (split_on (CHR 0x0A) text)
      in join_on (CHR 0x0A) (map (tw_line lines) [0..<length lines]))"

section \<open>A fragment of \<^verbatim>\<open>text/template\<close>\<close>

text \<open>
  The pull command renders a path template over \<^verbatim>\<open>FilenameParts\<close>, with the function
  \<^verbatim>\<open>TrimSuffix\<close> added. The model covers the templates made of literal text, field
  actions \<^verbatim>\<open>{{.Field}}\<close> and calls \<^verbatim>\<open>{{TrimSuffix .Field .Field}}\<close>, with spaces
  allowed inside the delimiters, a field being named by an identifier. An action that
  is not closed and a field that \<^verbatim>\<open>FilenameParts\<close> does not have are errors, as in
  Go; any other action is outside the fragment and reported as unsupported.
\<close>

record FilenameParts =
  Path :: string
  Base :: string
  Dir :: string
  Ext :: string
  PathWithoutExt :: string
  Locale :: string

datatype tmpl_node =
    TmplText string
  | TmplField string
  | TmplTrimSuffix string string

definition tmpl_text :: "string \<Rightarrow> tmpl_node list" where
  "tmpl_text s = (if s = [] then [] else [TmplText s])"

definition is_field_name :: "string \<Rightarrow> bool" where
  "is_field_name f =
     (f \<noteq> [] \<and>
      list_all (\<lambda>c. c \<in> set ''ABCDEFGHIJKLMNOPQRSTUVWXYZabcdefghijklmnopqrstuvwxyz_0123456789'') f \<and>
      hd f \<notin> set ''0123456789'')"

definition tmpl_action :: "string \<Rightarrow> string + tmpl_node" where
  "tmpl_action a =
     (case filter (\<lambda>w. w \<noteq> []) (split_on CHR '' '' a) of
        [CHR ''.'' # f] \<Rightarrow>
          if is_field_name f then Inr (TmplField f)
          else Inl (''template: unsupported action {{'' @ a @ ''}}'')
      | [fn, CHR ''.'' # f, CHR ''.'' # g] \<Rightarrow>
          if fn = ''TrimSuffix'' \<and> is_field_name f \<and> is_field_name g
          then Inr (TmplTrimSuffix f g)
          else Inl (''template: unsupported action {{'' @ a @ ''}}'')
      | _ \<Rightarrow> Inl (''template: unsupported action {{'' @ a @ ''}}''))"

lemma find_sub_shorter:
  "find_sub d s = Some (pre, rest) \<Longrightarrow> length rest + length d \<le> length s"
proof (induction s arbitrary: pre)
  case Nil
  then show ?case by (simp split: if_splits)
next
  case (Cons c cs)
  show ?case
  proof (cases "take (length d) (c # cs) = d")
    case True
    then have "length (take (length d) (c # cs)) = length d" by simp
    then have "length d \<le> length (c # cs)" by simp
    with True Cons.prems show ?thesis by auto
  next
    case False
    with Cons.prems obtain b where "find_sub d cs = Some (b, rest)"
      by (auto split: option.splits)
    from Cons.IH [OF this] show ?thesis by simp
  qed
qed

function tmpl_Parse :: "string \<Rightarrow> string + tmpl_node list" where
  "tmpl_Parse s =
     (case find_sub ''{{'' s of
        None \<Rightarrow> Inr (tmpl_text s)
      | Some (pre, rest) \<Rightarrow>
          (case find_sub ''}}'' rest of
             None \<Rightarrow> Inl ''template: unclosed action''
           | Some (a, rest') \<Rightarrow>
               (case tmpl_action a of
                  Inl e \<Rightarrow> Inl e
                | Inr node \<Rightarrow>
                    (case tmpl_Parse rest' of
                       Inl e \<Rightarrow> Inl e
                     | Inr nodes \<Rightarrow> Inr (tmpl_text pre @ node # nodes)))))"
  by pat_completeness auto
termination
proof (relation "measure length")
  show "wf (measure length)" by simp
next
  fix s x2 x y xa ya xb and yb :: string and x2a :: tmpl_node
  assume a: "find_sub ''{{'' s = Some x2" "(x, y) = x2" "find_sub ''}}'' y = Some xb"
    "(xa, ya) = xb"
  from a(1,2) have "length y + 2 \<le> length s"
    using find_sub_shorter [of "''{{''" s x y] by simp
  moreover from a(3,4) have "length ya + 2 \<le> length y"
    using find_sub_shorter [of "''}}''" y xa ya] by simp
  ultimately show "(ya, s) \<in> measure length" by simp
qed

declare tmpl_Parse.simps [simp del]

definition field_value :: "FilenameParts \<Rightarrow> string \<Rightarrow> string + string" where
  "field_value parts f =
     (if f = ''Path'' then Inr (Path parts)
      else if f = ''Base'' then Inr (Base parts)
      else if f = ''Dir'' then Inr (Dir parts)
      else if f = ''Ext'' then Inr (Ext parts)
      else if f = ''PathWithoutExt'' then Inr (PathWithoutExt parts)
      else if f = ''Locale'' then Inr (Locale parts)
      else Inl (''template: can't evaluate field '' @ f @ '' in type main.FilenameParts''))"

fun tmpl_Execute :: "tmpl_node list \<Rightarrow> FilenameParts \<Rightarrow> string + string" where
  "tmpl_Execute [] parts = Inr []"
| "tmpl_Execute (TmplText t # nodes) parts =
     (case tmpl_Execute nodes parts of Inl e \<Rightarrow> Inl e | Inr out \<Rightarrow> Inr (t @ out))"
| "tmpl_Execute (TmplField f # nodes) parts =
     (case field_value parts f of
        Inl e \<Rightarrow> Inl e
      | Inr v \<Rightarrow> (case tmpl_Execute nodes parts of Inl e \<Rightarrow> Inl e | Inr out \<Rightarrow> Inr (v @ out)))"
| "tmpl_Execute (TmplTrimSuffix f g # nodes) parts =
     (case field_value parts f of
        Inl e \<Rightarrow> Inl e
      | Inr v \<Rightarrow>
          (case field_value parts g of
             Inl e \<Rightarrow> Inl e
           | Inr s \<Rightarrow>
               (case tmpl_Execute nodes parts of
                  Inl e \<Rightarrow> Inl e
                | Inr out \<Rightarrow> Inr (TrimSuffix v s @ out))))"

section \<open>Configuration, collaborators and observable events\<close>

text \<open>
  \<^verbatim>\<open>ProjectConfig\<close> is a global of the program; its type is declared outside
  \<^verbatim>\<open>project.go\<close>, and the records have the fields that \<^verbatim>\<open>project.go\<close> reads. A
  parser configuration is a finite map from strings to strings, kept as its list of
  pairs; the commands only pass it on.
\<close>

record file_config =
  FileType :: string
  ParserConfig :: "(string \<times> string) list"
  PullFilePath :: string

record project_config =
  path :: string
  Files :: "string list"
  FileConfig :: file_config

text \<open>\<^verbatim>\<open>smartling.UploadRequest\<close>, with the fields the push command sets.\<close>

record UploadRequest =
  FileUri :: string
  ReqFileType :: string
  ReqParserConfig :: "(string \<times> string) list"

text \<open>
  A panic ends the whole process: a panic with an error value, an index out of range,
  \<^verbatim>\<open>log.Panicln\<close>, and an assignment to an entry of a nil map.
\<close>

datatype panic =
    PanicErr string
  | PanicIndex nat nat
  | PanicLog string
  | PanicNilMap

text \<open>
  Modelled from the spec: \<^verbatim>\<open>panicIfErr\<close>, which \<^verbatim>\<open>project.go\<close> calls after every
  call that can fail and does not define. Every failure is fatal for the whole command:
  with no error \<^verbatim>\<open>panicIfErr\<close> returns and the caller goes on, and with an error
  the command ends at once; \<open>panicIfErr err\<close> is the panic it ends with.
\<close>

definition panicIfErr :: "string \<Rightarrow> panic" where
  "panicIfErr err = PanicErr err"

declare panicIfErr_def [simp]

text \<open>
  Everything observable that a command does, in the order it happens: bytes printed to
  standard output, calls of the collaborators with their results, and files written. An
  error result is the error's message. Each event is tagged with the goroutine it comes
  from.
\<close>

datatype 'fs event =
    Print string
  | CallLocales "string + string list"
  | CallUploadTemp string string "string + string"
  | CallUpload string UploadRequest "string option"
  | CallStatus string string "string + 'fs"
  | CallDelete string "string option"
  | CallRetrieve string string "string + string"
  | WriteFile string string "string option"

datatype origin = MainRoutine | Worker nat

record ('r, 'fs) world =
  remote :: 'r
  trace :: "(origin \<times> 'fs event) list"

definition emit ::
  "origin \<Rightarrow> 'fs event \<Rightarrow> 'r \<Rightarrow> ('r, 'fs, 'z) world_scheme \<Rightarrow> ('r, 'fs, 'z) world_scheme" where
  "emit who e r w = w\<lparr>remote := r, trace := trace w @ [(who, e)]\<rparr>"

definition worker_events :: "nat \<Rightarrow> (origin \<times> 'fs event) list \<Rightarrow> 'fs event list" where
  "worker_events i tr = map snd (filter (\<lambda>x. fst x = Worker i) tr)"

fun is_delete :: "'fs event \<Rightarrow> bool" where
  "is_delete (CallDelete uri err) = True"
| "is_delete e = False"

fun is_upload :: "'fs event \<Rightarrow> bool" where
  "is_upload (CallUpload p req err) = True"
| "is_upload e = False"

fun is_print :: "'fs event \<Rightarrow> bool" where
  "is_print (Print s) = True"
| "is_print e = False"

text \<open>
  What \<^verbatim>\<open>project.go\<close> uses and does not define. The world outside the process (the
  remote service and the local disk) is a state \<open>'r\<close> that every call may read and
  change. \<open>'fs\<close> is \<^verbatim>\<open>smartling.FileStatus\<close>, seen through its two count methods
  and its field \<^verbatim>\<open>CompletedStringCount\<close>; \<open>zeroFileStatus\<close> is its zero value. The
  list of \<^verbatim>\<open>client.Locales()\<close> is given by the \<^verbatim>\<open>Locale\<close> field of its entries,
  the only field the commands read. \<open>pushPrefix\<close> is the result of
  \<^verbatim>\<open>pushPrefix()\<close> and \<open>defaultPullDestination\<close> the constant of that name.
  \<open>fresh_retrieval\<close> is the download of a translation from the service.
\<close>

record ('r, 'fs) collaborators =
  ProjectConfig :: project_config
  pushPrefix :: string
  defaultPullDestination :: string
  FileTypeByExtension :: "string \<Rightarrow> string"
  client_Locales :: "'r \<Rightarrow> (string + string list) \<times> 'r"
  client_Upload :: "string \<Rightarrow> UploadRequest \<Rightarrow> 'r \<Rightarrow> string option \<times> 'r"
  client_Status :: "string \<Rightarrow> string \<Rightarrow> 'r \<Rightarrow> (string + 'fs) \<times> 'r"
  client_Delete :: "string \<Rightarrow> 'r \<Rightarrow> string option \<times> 'r"
  uploadAsTempFile ::
    "string \<Rightarrow> string \<Rightarrow> (string \<times> string) list \<Rightarrow> 'r \<Rightarrow> (string + string) \<times> 'r"
  fresh_retrieval ::
    "string \<Rightarrow> string \<Rightarrow> string \<Rightarrow> (string \<times> string) list \<Rightarrow> 'r \<Rightarrow> (string + string) \<times> 'r"
  ioutil_WriteFile :: "string \<Rightarrow> string \<Rightarrow> 'r \<Rightarrow> string option \<times> 'r"
  AwaitingAuthorizationCount :: "'fs \<Rightarrow> int"
  InProgressCount :: "'fs \<Rightarrow> int"
  CompletedStringCount :: "'fs \<Rightarrow> int"
  zeroFileStatus :: 'fs

section \<open>Goroutines under a scheduler\<close>

text \<open>
  Each command starts one goroutine per unit of work and waits for all of them. A
  goroutine is a small state machine; one step of it is atomic. A schedule is the list
  of the goroutines' indices in the order in which they take their steps. A step that
  panics ends the run. \<open>wait_sched\<close> is \<^verbatim>\<open>wg.Wait()\<close>: every goroutine that has
  not finished is run to its end, \<open>k\<close> bounding the steps one goroutine takes.
\<close>

fun run_sched ::
  "(nat \<Rightarrow> 'u \<Rightarrow> 'w \<Rightarrow> panic option \<times> 'u \<times> 'w) \<Rightarrow> nat list \<Rightarrow> 'u list \<times> 'w
    \<Rightarrow> panic option \<times> 'u list \<times> 'w" where
  "run_sched step [] (us, w) = (None, us, w)"
| "run_sched step (i # sched) (us, w) =
     (if i < length us then
        (case step i (us ! i) w of
           (Some p, u', w') \<Rightarrow> (Some p, us[i := u'], w')
         | (None, u', w') \<Rightarrow> run_sched step sched (us[i := u'], w'))
      else run_sched step sched (us, w))"

definition wait_sched :: "nat \<Rightarrow> nat \<Rightarrow> nat list" where
  "wait_sched k n = concat (map (replicate k) [0..<n])"

section \<open>The helpers of \<^verbatim>\<open>project.go\<close>\<close>

definition cleanPrefix :: "string \<Rightarrow> string" where
  "cleanPrefix s = (let s' = filepath_Clean (''/'' @ s) in if s' = ''/'' then [] else s')"

text \<open>
  \<open>flag\<close> is the value of the command-line flag \<^verbatim>\<open>prefix\<close>, empty when it is not
  given. The result is the prefix and what is printed.
\<close>

definition getPrefix :: "('r, 'fs) collaborators \<Rightarrow> string \<Rightarrow> string \<times> 'fs event list" where
  "getPrefix env flag =
     (let prefix = (if flag = [] then pushPrefix env else flag);
          prefix = cleanPrefix prefix
      in (prefix, if prefix \<noteq> [] then [Print (Println [''Using prefix'', prefix])] else []))"

definition filetypeForProjectFile :: "('r, 'fs) collaborators \<Rightarrow> string \<Rightarrow> panic + string" where
  "filetypeForProjectFile env projectFilepath =
     (let ft = FileTypeByExtension env (filepath_Ext projectFilepath);
          ft = (if ft = [] then FileType (FileConfig (ProjectConfig env)) else ft)
      in if ft = []
         then Inl (PanicLog (''Can't determine file type for '' @ projectFilepath @ newline))
         else Inr ft)"

definition localRelativeFilePath :: "('r, 'fs) collaborators \<Rightarrow> string \<Rightarrow> panic + string" where
  "localRelativeFilePath env remotepath =
     (case filepath_Rel_dot (filepath_Join [path (ProjectConfig env), remotepath]) of
        Inl err \<Rightarrow> Inl (panicIfErr err)
      | Inr fp \<Rightarrow> Inr fp)"

definition localPullFilePath ::
  "('r, 'fs) collaborators \<Rightarrow> string \<Rightarrow> string \<Rightarrow> panic + string" where
  "localPullFilePath env p locale' =
     (let parts = \<lparr>Path = p, Base = filepath_Base p, Dir = filepath_Dir p, Ext = filepath_Ext p,
                   PathWithoutExt = [], Locale = locale'\<rparr>;
          dt = defaultPullDestination env;
          dt = (if dt \<noteq> [] then PullFilePath (FileConfig (ProjectConfig env)) else dt)
      in (case tmpl_Parse dt of
            Inl err \<Rightarrow> Inl (panicIfErr err)
          | Inr tmpl \<Rightarrow>
              (case tmpl_Execute tmpl parts of
                 Inl err \<Rightarrow> Inl (panicIfErr err)
               | Inr out \<Rightarrow> localRelativeFilePath env out)))"

section \<open>The push command\<close>

text \<open>Line 183: the remote path of a project file.\<close>

definition remoteFile :: "string \<Rightarrow> string \<Rightarrow> string" where
  "remoteFile prefix projectFilepath = filepath_Clean (prefix @ ''/'' @ projectFilepath)"

text \<open>
  The goroutine of one project file, by the call it is about to make. \<open>PushDecide\<close>
  holds the status \<^verbatim>\<open>fs\<close>; \<open>PushReport\<close> and \<open>PushDone\<close> hold \<^verbatim>\<open>fs\<close> and
  \<^verbatim>\<open>hasNewStrings\<close>. A goroutine is its project file and its state.
\<close>

datatype 'fs push_state =
    PushUpload
  | PushStatus
  | PushDecide 'fs
  | PushReport 'fs bool
  | PushDone 'fs bool

fun push_step ::
  "('r, 'fs) collaborators \<Rightarrow> string \<Rightarrow> string \<Rightarrow> nat \<Rightarrow> string \<times> 'fs push_state
    \<Rightarrow> ('r, 'fs) world \<Rightarrow> panic option \<times> (string \<times> 'fs push_state) \<times> ('r, 'fs) world" where
  "push_step env prefix firstLocale i (p, PushUpload) w =
     (case filetypeForProjectFile env p of
        Inl pn \<Rightarrow> (Some pn, (p, PushUpload), w)
      | Inr ft \<Rightarrow>
          let req = \<lparr>FileUri = remoteFile prefix p, ReqFileType = ft,
                     ReqParserConfig = ParserConfig (FileConfig (ProjectConfig env))\<rparr>;
              (err, r') = client_Upload env p req (remote w);
              w' = emit (Worker i) (CallUpload p req err) r' w
          in (case err of
                Some e \<Rightarrow> (Some (panicIfErr e), (p, PushUpload), w')
              | None \<Rightarrow> (None, (p, PushStatus), w')))"
| "push_step env prefix firstLocale i (p, PushStatus) w =
     (let (res, r') = client_Status env (remoteFile prefix p) firstLocale (remote w);
          w' = emit (Worker i) (CallStatus (remoteFile prefix p) firstLocale res) r' w
      in (case res of
            Inl e \<Rightarrow> (Some (panicIfErr e), (p, PushStatus), w')
          | Inr fs \<Rightarrow> (None, (p, PushDecide fs), w')))"
| "push_step env prefix firstLocale i (p, PushDecide fs) w =
     (if prefix \<noteq> [] \<and> AwaitingAuthorizationCount env fs = 0 then
        (let (err, r') = client_Delete env (remoteFile prefix p) (remote w);
             w' = emit (Worker i) (CallDelete (remoteFile prefix p) err) r' w
         in (case err of
               Some e \<Rightarrow> (Some (panicIfErr e), (p, PushDecide fs), w')
             | None \<Rightarrow> (None, (p, PushReport fs False), w')))
      else (None, (p, PushReport fs True), w))"
| "push_step env prefix firstLocale i (p, PushReport fs hasNewStrings) w =
     (if hasNewStrings then
        (None, (p, PushDone fs hasNewStrings),
         emit (Worker i)
           (Print (fmt_3d (AwaitingAuthorizationCount env fs) @ '' unauthorised strings in ''
                   @ remoteFile prefix p @ newline))
           (remote w) w)
      else (None, (p, PushDone fs hasNewStrings), w))"
| "push_step env prefix firstLocale i (p, PushDone fs hasNewStrings) w =
     (None, (p, PushDone fs hasNewStrings), w)"

text \<open>
  The action of the command, from the flag, a schedule of its goroutines and the state
  of the world outside: the panic that ended it, if any, the goroutines and the world.
  The loop that starts the goroutines has no effect of its own, so all of them are
  started before the first step is taken.
\<close>

definition projectPushCommand ::
  "('r, 'fs) collaborators \<Rightarrow> string \<Rightarrow> nat list \<Rightarrow> 'r
    \<Rightarrow> panic option \<times> (string \<times> 'fs push_state) list \<times> ('r, 'fs) world" where
  "projectPushCommand env flag sched r0 =
     (let (prefix, out) = getPrefix env flag;
          (res, r1) = client_Locales env r0;
          w1 = \<lparr>remote = r1, trace = map (Pair MainRoutine) (out @ [CallLocales res])\<rparr>
      in (case res of
            Inl e \<Rightarrow> (Some (panicIfErr e), [], w1)
          | Inr locales \<Rightarrow>
              (case locales of
                 [] \<Rightarrow> (Some (PanicIndex 0 0), [], w1)
               | firstLocale # _ \<Rightarrow>
                   let units = map (\<lambda>p. (p, PushUpload)) (Files (ProjectConfig env))
                   in run_sched (push_step env prefix firstLocale)
                        (sched @ wait_sched 4 (length units)) (units, w1))))"

subsection \<open>What a goroutine of the push command has done\<close>

text \<open>
  The events that the goroutine of a file has produced when it is in a given state, used
  to state and prove the properties of the command: the upload, the status query, and
  then either the delete or the line with the count.
\<close>

fun push_rank :: "string \<times> 'fs push_state \<Rightarrow> nat" where
  "push_rank (p, PushUpload) = 4"
| "push_rank (p, PushStatus) = 3"
| "push_rank (p, PushDecide fs) = 2"
| "push_rank (p, PushReport fs h) = 1"
| "push_rank (p, PushDone fs h) = 0"

definition upload_event :: "('r, 'fs) collaborators \<Rightarrow> string \<Rightarrow> string \<Rightarrow> 'fs event" where
  "upload_event env prefix p =
     CallUpload p
       \<lparr>FileUri = remoteFile prefix p,
        ReqFileType = (case filetypeForProjectFile env p of Inr ft \<Rightarrow> ft | Inl pn \<Rightarrow> []),
        ReqParserConfig = ParserConfig (FileConfig (ProjectConfig env))\<rparr>
       None"

definition count_line :: "('r, 'fs) collaborators \<Rightarrow> string \<Rightarrow> string \<Rightarrow> 'fs \<Rightarrow> string" where
  "count_line env prefix p fs =
     fmt_3d (AwaitingAuthorizationCount env fs) @ '' unauthorised strings in ''
       @ remoteFile prefix p @ newline"

definition retracts :: "('r, 'fs) collaborators \<Rightarrow> string \<Rightarrow> 'fs \<Rightarrow> bool" where
  "retracts env prefix fs = (prefix \<noteq> [] \<and> AwaitingAuthorizationCount env fs = 0)"

fun push_events ::
  "('r, 'fs) collaborators \<Rightarrow> string \<Rightarrow> string \<Rightarrow> string \<times> 'fs push_state \<Rightarrow> 'fs event list" where
  "push_events env prefix loc (p, PushUpload) = []"
| "push_events env prefix loc (p, PushStatus) = [upload_event env prefix p]"
| "push_events env prefix loc (p, PushDecide fs) =
     [upload_event env prefix p, CallStatus (remoteFile prefix p) loc (Inr fs)]"
| "push_events env prefix loc (p, PushReport fs h) =
     [upload_event env prefix p, CallStatus (remoteFile prefix p) loc (Inr fs)]
       @ (if retracts env prefix fs then [CallDelete (remoteFile prefix p) None] else [])"
| "push_events env prefix loc (p, PushDone fs h) =
     [upload_event env prefix p, CallStatus (remoteFile prefix p) loc (Inr fs)]
       @ (if retracts env prefix fs then [CallDelete (remoteFile prefix p) None]
          else [Print (count_line env prefix p fs)])"

fun push_flag_ok :: "('r, 'fs) collaborators \<Rightarrow> string \<Rightarrow> string \<times> 'fs push_state \<Rightarrow> bool" where
  "push_flag_ok env prefix (p, PushUpload) = True"
| "push_flag_ok env prefix (p, PushStatus) = (\<not> isl (filetypeForProjectFile env p))"
| "push_flag_ok env prefix (p, PushDecide fs) = (\<not> isl (filetypeForProjectFile env p))"
| "push_flag_ok env prefix (p, PushReport fs h) =
     (\<not> isl (filetypeForProjectFile env p) \<and> h = (\<not> retracts env prefix fs))"
| "push_flag_ok env prefix (p, PushDone fs h) =
     (\<not> isl (filetypeForProjectFile env p) \<and> h = (\<not> retracts env prefix fs))"

definition push_inv ::
  "('r, 'fs) collaborators \<Rightarrow> string \<Rightarrow> string \<Rightarrow> string list
    \<Rightarrow> (string \<times> 'fs push_state) list \<Rightarrow> ('r, 'fs) world \<Rightarrow> bool" where
  "push_inv env prefix loc files us w =
     (map fst us = files \<and>
      (\<forall>i < length us. worker_events i (trace w) = push_events env prefix loc (us ! i)
                       \<and> push_flag_ok env prefix (us ! i)))"

section \<open>The status command\<close>

text \<open>
  \<^verbatim>\<open>statuses\<close> is a map of maps. A Go map is a reference: the outer map holds, for a
  project file, the address of an inner map, and \<open>heap\<close> holds the inner maps by
  address; \<^verbatim>\<open>make\<close> allocates the next address. Both are shared by all goroutines.
\<close>

record ('r, 'fs) status_world = "('r, 'fs) world" +
  statuses :: "string \<rightharpoonup> nat"
  heap :: "(string \<rightharpoonup> 'fs) list"

text \<open>
  The goroutine of one file and locale (lines 59 to 71), by the statement it is about to
  execute: the status query of line 62, the lookup of line 65, the creation of the inner
  map of lines 67 and 68, and the store of line 70. A goroutine is its arguments
  \<^verbatim>\<open>tmpfile\<close>, \<^verbatim>\<open>locale\<close> and \<^verbatim>\<open>projectFilepath\<close>, and its state.
\<close>

datatype 'fs status_state =
    StQuery
  | StLookup 'fs
  | StCreate 'fs
  | StStore 'fs
  | StDone

fun status_step ::
  "('r, 'fs) collaborators \<Rightarrow> nat \<Rightarrow> (string \<times> string \<times> string) \<times> 'fs status_state
    \<Rightarrow> ('r, 'fs) status_world
    \<Rightarrow> panic option \<times> ((string \<times> string \<times> string) \<times> 'fs status_state) \<times> ('r, 'fs) status_world"
  where
  "status_step env i ((tmpfile, l, p), StQuery) w =
     (let (res, r') = client_Status env tmpfile l (remote w);
          w' = emit (Worker i) (CallStatus tmpfile l res) r' w
      in (case res of
            Inl e \<Rightarrow> (Some (panicIfErr e), ((tmpfile, l, p), StQuery), w')
          | Inr fs \<Rightarrow> (None, ((tmpfile, l, p), StLookup fs), w')))"
| "status_step env i ((tmpfile, l, p), StLookup fs) w =
     (case statuses w p of
        None \<Rightarrow> (None, ((tmpfile, l, p), StCreate fs), w)
      | Some a \<Rightarrow> (None, ((tmpfile, l, p), StStore fs), w))"
| "status_step env i ((tmpfile, l, p), StCreate fs) w =
     (None, ((tmpfile, l, p), StStore fs),
      w\<lparr>statuses := (statuses w)(p \<mapsto> length (heap w)), heap := heap w @ [Map.empty]\<rparr>)"
| "status_step env i ((tmpfile, l, p), StStore fs) w =
     (case statuses w p of
        None \<Rightarrow> (Some PanicNilMap, ((tmpfile, l, p), StStore fs), w)
      | Some a \<Rightarrow>
          (None, ((tmpfile, l, p), StDone), w\<lparr>heap := (heap w)[a := (heap w ! a)(l \<mapsto> fs)]\<rparr>))"
| "status_step env i ((tmpfile, l, p), StDone) w = (None, ((tmpfile, l, p), StDone), w)"

text \<open>
  The loop of lines 49 to 73 in the main goroutine: one temporary upload per file, and
  one goroutine per locale for it. The goroutines of a file could take steps while the
  next file is uploaded; here they take their first step after the last upload.
\<close>

fun status_dispatch ::
  "('r, 'fs) collaborators \<Rightarrow> string list \<Rightarrow> string list \<Rightarrow> ('r, 'fs) status_world
    \<Rightarrow> panic option \<times> ((string \<times> string \<times> string) \<times> 'fs status_state) list
        \<times> ('r, 'fs) status_world" where
  "status_dispatch env locales [] w = (None, [], w)"
| "status_dispatch env locales (p # ps) w =
     (case localRelativeFilePath env p of
        Inl pn \<Rightarrow> (Some pn, [], w)
      | Inr lp \<Rightarrow>
          (case filetypeForProjectFile env p of
             Inl pn \<Rightarrow> (Some pn, [], w)
           | Inr ft \<Rightarrow>
               let (res, r') = uploadAsTempFile env lp ft
                                 (ParserConfig (FileConfig (ProjectConfig env))) (remote w);
                   w' = emit MainRoutine (CallUploadTemp lp ft res) r' w
               in (case res of
                     Inl e \<Rightarrow> (Some (panicIfErr e), [], w')
                   | Inr tmpfile \<Rightarrow>
                       (case status_dispatch env locales ps w' of
                          (pn, us, w'') \<Rightarrow>
                            (pn, map (\<lambda>l. ((tmpfile, l, p), StQuery)) locales @ us, w'')))))"

text \<open>
  The status matrix: the entry of a file and a locale, if there is one. Reading a
  missing entry, as the table does in line 92, gives the zero value.
\<close>

definition status_matrix :: "('r, 'fs) status_world \<Rightarrow> string \<Rightarrow> string \<Rightarrow> 'fs option" where
  "status_matrix w p l =
     (case statuses w p of
        None \<Rightarrow> None
      | Some a \<Rightarrow> if a < length (heap w) then (heap w ! a) l else None)"

definition status_entry ::
  "('r, 'fs) collaborators \<Rightarrow> (string \<Rightarrow> string \<Rightarrow> 'fs option) \<Rightarrow> string \<Rightarrow> string \<Rightarrow> 'fs" where
  "status_entry env m p l = (case m p l of None \<Rightarrow> zeroFileStatus env | Some fs \<Rightarrow> fs)"

text \<open>Lines 83 to 96: what is written to the column writer.\<close>

definition status_cell :: "('r, 'fs) collaborators \<Rightarrow> 'fs \<Rightarrow> string" where
  "status_cell env status =
     Fprint [OpString tab, OpInt (AwaitingAuthorizationCount env status), OpString ''->'',
             OpInt (InProgressCount env status), OpString ''->'',
             OpInt (CompletedStringCount env status)]"

definition status_header :: "string list \<Rightarrow> string" where
  "status_header locales =
     Fprint [OpString '' ''] @ concat (map (\<lambda>l. Fprint [OpString tab, OpString l]) locales)
       @ Fprint [OpString newline]"

definition status_row ::
  "('r, 'fs) collaborators \<Rightarrow> string list \<Rightarrow> (string \<Rightarrow> string \<Rightarrow> 'fs option) \<Rightarrow> string \<Rightarrow> string"
  where
  "status_row env locales m projectFilepath =
     Fprint [OpString projectFilepath]
       @ concat (map (\<lambda>l. status_cell env (status_entry env m projectFilepath l)) locales)
       @ Fprint [OpString newline]"

definition status_table ::
  "('r, 'fs) collaborators \<Rightarrow> string list \<Rightarrow> string list \<Rightarrow> (string \<Rightarrow> string \<Rightarrow> 'fs option) \<Rightarrow> string"
  where
  "status_table env files locales m =
     status_header locales @ concat (map (status_row env locales m) files)"

definition status_legend :: string where
  "status_legend = ''Translation counts: Awaiting Authorization -> In Progress -> Completed''"

definition projectStatusCommand ::
  "('r, 'fs) collaborators \<Rightarrow> nat list \<Rightarrow> 'r
    \<Rightarrow> panic option \<times> ((string \<times> string \<times> string) \<times> 'fs status_state) list
        \<times> ('r, 'fs) status_world" where
  "projectStatusCommand env sched r0 =
     (let projectFilepaths = Files (ProjectConfig env);
          (res, r1) = client_Locales env r0;
          w1 = \<lparr>remote = r1, trace = [(MainRoutine, CallLocales res)],
                statuses = Map.empty, heap = []\<rparr>
      in (case res of
            Inl e \<Rightarrow> (Some (panicIfErr e), [], w1)
          | Inr locales \<Rightarrow>
              (case status_dispatch env locales projectFilepaths w1 of
                 (Some pn, us, w2) \<Rightarrow> (Some pn, us, w2)
               | (None, us, w2) \<Rightarrow>
                   (case run_sched (status_step env) (sched @ wait_sched 4 (length us)) (us, w2) of
                      (Some pn, us', w3) \<Rightarrow> (Some pn, us', w3)
                    | (None, us', w3) \<Rightarrow>
                        (None, us',
                         w3\<lparr>trace := trace w3 @ map (Pair MainRoutine)
                            [Print newline, Print (Println [status_legend]), Print newline,
                             Print (tabwriter
                                      (status_table env projectFilepaths locales
                                         (status_matrix w3)))]\<rparr>)))))"

text \<open>The bytes that a run printed to standard output.\<close>

fun printed :: "(origin \<times> 'fs event) list \<Rightarrow> string" where
  "printed [] = []"
| "printed ((who, Print s) # tr) = s @ printed tr"
| "printed (x # tr) = printed tr"

section \<open>The pull command\<close>

text \<open>
  Modelled from the spec: \<^verbatim>\<open>translateViaCache\<close>, which \<^verbatim>\<open>project.go\<close> calls and
  does not define. It is the Translation Cache of the specification: an entry is keyed
  by locale, local path, file type and parser configuration; a stored entry is returned
  as it is, with the hit flag set; on a miss the translation is retrieved from the
  service, stored under the key and returned, with the hit flag not set; a failed
  retrieval stores nothing. The cache is kept across runs.
\<close>

type_synonym cache_key = "string \<times> string \<times> string \<times> (string \<times> string) list"

record ('r, 'fs) pull_world = "('r, 'fs) world" +
  cache :: "cache_key \<rightharpoonup> string"

definition translateViaCache ::
  "('r, 'fs) collaborators \<Rightarrow> origin \<Rightarrow> string \<Rightarrow> string \<Rightarrow> string \<Rightarrow> (string \<times> string) list
    \<Rightarrow> ('r, 'fs) pull_world \<Rightarrow> (bool \<times> (string + string)) \<times> ('r, 'fs) pull_world" where
  "translateViaCache env who locale' localpath filetype parserConfig w =
     (case cache w (locale', localpath, filetype, parserConfig) of
        Some b \<Rightarrow> ((True, Inr b), w)
      | None \<Rightarrow>
          let (res, r') = fresh_retrieval env locale' localpath filetype parserConfig (remote w);
              w' = emit who (CallRetrieve locale' localpath res) r' w
          in (case res of
                Inl err \<Rightarrow> ((False, Inl err), w')
              | Inr b \<Rightarrow>
                  ((False, Inr b),
                   w'\<lparr>cache := (cache w')((locale', localpath, filetype, parserConfig) \<mapsto> b)\<rparr>)))"

text \<open>
  The goroutine of one locale and file (lines 113 to 132): the translation of line 116,
  the report of lines 124 to 129, which holds \<^verbatim>\<open>hit\<close> and \<^verbatim>\<open>b\<close>, and the write
  of line 130, which holds \<^verbatim>\<open>fp\<close> and \<^verbatim>\<open>b\<close>.
\<close>

datatype pull_state =
    PullTranslate
  | PullReport bool string
  | PullWrite string string
  | PullDone

fun pull_step ::
  "('r, 'fs) collaborators \<Rightarrow> nat \<Rightarrow> (string \<times> string) \<times> pull_state \<Rightarrow> ('r, 'fs) pull_world
    \<Rightarrow> panic option \<times> ((string \<times> string) \<times> pull_state) \<times> ('r, 'fs) pull_world" where
  "pull_step env i ((l, p), PullTranslate) w =
     (case localRelativeFilePath env p of
        Inl pn \<Rightarrow> (Some pn, ((l, p), PullTranslate), w)
      | Inr lp \<Rightarrow>
          (case filetypeForProjectFile env p of
             Inl pn \<Rightarrow> (Some pn, ((l, p), PullTranslate), w)
           | Inr ft \<Rightarrow>
               (case translateViaCache env (Worker i) l lp ft
                       (ParserConfig (FileConfig (ProjectConfig env))) w of
                  ((hit, Inl err), w') \<Rightarrow> (Some (panicIfErr err), ((l, p), PullTranslate), w')
                | ((hit, Inr b), w') \<Rightarrow> (None, ((l, p), PullReport hit b), w'))))"
| "pull_step env i ((l, p), PullReport hit b) w =
     (case localPullFilePath env p l of
        Inl pn \<Rightarrow> (Some pn, ((l, p), PullReport hit b), w)
      | Inr fp \<Rightarrow>
          let cached = (if hit then ''(using cache)'' else [])
          in (None, ((l, p), PullWrite fp b),
              emit (Worker i) (Print (Println [fp, cached])) (remote w) w))"
| "pull_step env i ((l, p), PullWrite fp b) w =
     (let (err, r') = ioutil_WriteFile env fp b (remote w);
          w' = emit (Worker i) (WriteFile fp b err) r' w
      in (case err of
            Some e \<Rightarrow> (Some (panicIfErr e), ((l, p), PullWrite fp b), w')
          | None \<Rightarrow> (None, ((l, p), PullDone), w')))"
| "pull_step env i ((l, p), PullDone) w = (None, ((l, p), PullDone), w)"

definition projectPullCommand ::
  "('r, 'fs) collaborators \<Rightarrow> nat list \<Rightarrow> (cache_key \<rightharpoonup> string) \<Rightarrow> 'r
    \<Rightarrow> panic option \<times> ((string \<times> string) \<times> pull_state) list \<times> ('r, 'fs) pull_world" where
  "projectPullCommand env sched c0 r0 =
     (let (res, r1) = client_Locales env r0;
          w1 = \<lparr>remote = r1, trace = [(MainRoutine, CallLocales res)], cache = c0\<rparr>
      in (case res of
            Inl e \<Rightarrow> (Some (panicIfErr e), [], w1)
          | Inr locales \<Rightarrow>
              let units = concat (map (\<lambda>p. map (\<lambda>l. ((l, p), PullTranslate)) locales)
                                    (Files (ProjectConfig env)))
              in run_sched (pull_step env) (sched @ wait_sched 3 (length units)) (units, w1)))"

text \<open>One pull of one locale and file, its goroutine running alone as goroutine \<open>i\<close>.\<close>

definition pull_pair ::
  "('r, 'fs) collaborators \<Rightarrow> nat \<Rightarrow> string \<Rightarrow> string \<Rightarrow> ('r, 'fs) pull_world
    \<Rightarrow> panic option \<times> pull_state \<times> ('r, 'fs) pull_world" where
  "pull_pair env i l p w =
     (case pull_step env i ((l, p), PullTranslate) w of
        (Some pn, u, w1) \<Rightarrow> (Some pn, snd u, w1)
      | (None, u1, w1) \<Rightarrow>
          (case pull_step env i u1 w1 of
             (Some pn, u, w2) \<Rightarrow> (Some pn, snd u, w2)
           | (None, u2, w2) \<Rightarrow>
               (case pull_step env i u2 w2 of (res, u3, w3) \<Rightarrow> (res, snd u3, w3))))"

text \<open>The cache key of the pull of a locale and file, when its arguments can be computed.\<close>

definition pull_cache_key :: "('r, 'fs) collaborators \<Rightarrow> string \<Rightarrow> string \<Rightarrow> cache_key option" where
  "pull_cache_key env l p =
     (case localRelativeFilePath env p of
        Inl pn \<Rightarrow> None
      | Inr lp \<Rightarrow>
          (case filetypeForProjectFile env p of
             Inl pn \<Rightarrow> None
           | Inr ft \<Rightarrow> Some (l, lp, ft, ParserConfig (FileConfig (ProjectConfig env)))))"

section \<open>An example project\<close>

text \<open>
  A small service for evaluating the commands: the remote state is the list of the
  uploaded files; the status of an uploaded file is 2, 1, 5 (awaiting, in progress,
  completed) in the locale \<^verbatim>\<open>fr-FR\<close> and 0, 0, 7 in any other locale.
\<close>

definition example_project ::
  "string list \<Rightarrow> string list \<Rightarrow> string \<Rightarrow> (string list, int \<times> int \<times> int) collaborators" where
  "example_project files locales pullFilePath =
     \<lparr>ProjectConfig =
        \<lparr>path = ''.'', Files = files,
         FileConfig = \<lparr>FileType = [], ParserConfig = [], PullFilePath = pullFilePath\<rparr>\<rparr>,
      pushPrefix = [],
      defaultPullDestination = ''{{.Path}}'',
      FileTypeByExtension = (\<lambda>e. if e = ''.json'' then ''json'' else []),
      client_Locales = (\<lambda>r. (Inr locales, r)),
      client_Upload = (\<lambda>p req r. (None, FileUri req # r)),
      client_Status = (\<lambda>uri l r.
         (if uri \<in> set r then Inr (if l = ''fr-FR'' then (2, 1, 5) else (0, 0, 7))
          else Inl ''file not found'', r)),
      client_Delete = (\<lambda>uri r. (None, removeAll uri r)),
      uploadAsTempFile = (\<lambda>p ft pc r. (Inr (''tmp/'' @ p), (''tmp/'' @ p) # r)),
      fresh_retrieval = (\<lambda>l p ft pc r. (Inr (p @ '' in '' @ l), r)),
      ioutil_WriteFile = (\<lambda>fp b r. (None, r)),
      AwaitingAuthorizationCount = fst,
      InProgressCount = (\<lambda>fs. fst (snd fs)),
      CompletedStringCount = (\<lambda>fs. snd (snd fs)),
      zeroFileStatus = (0, 0, 0)\<rparr>"

chapter \<open>Properties\<close>

section \<open>Runs of a schedule\<close>

lemma run_sched_append:
  "run_sched step (a @ b) (us, w) =
     (case run_sched step a (us, w) of
        (Some p, us', w') \<Rightarrow> (Some p, us', w')
      | (None, us', w') \<Rightarrow> run_sched step b (us', w'))"
  by (induction a arbitrary: us w) (auto split: prod.splits option.splits)

lemma run_sched_length:
  "run_sched step sched (us, w) = (r, us', w') \<Longrightarrow> length us' = length us"
  by (induction sched arbitrary: us w) (auto split: prod.splits option.splits if_splits)

lemma run_sched_always:
  assumes step: "\<And>i us w r u' w'. P us w \<Longrightarrow> i < length us \<Longrightarrow> step i (us ! i) w = (r, u', w')
                   \<Longrightarrow> P (us[i := u']) w'"
    and init: "P us w"
    and run: "run_sched step sched (us, w) = (r, us', w')"
  shows "P us' w'"
  using init run
proof (induction sched arbitrary: us w)
  case Nil
  then show ?case by simp
next
  case (Cons i sched)
  show ?case
  proof (cases "i < length us")
    case False
    with Cons show ?thesis by simp
  next
    case True
    obtain q u1 w1 where s: "step i (us ! i) w = (q, u1, w1)"
      by (cases "step i (us ! i) w") auto
    have P1: "P (us[i := u1]) w1" using step [OF Cons.prems(1) True s] .
    show ?thesis
    proof (cases q)
      case None
      with Cons.prems(2) True s have "run_sched step sched (us[i := u1], w1) = (r, us', w')" by simp
      from Cons.IH [OF P1 this] show ?thesis .
    next
      case (Some p)
      with Cons.prems(2) True s have "us' = us[i := u1]" "w' = w1" by simp_all
      with P1 show ?thesis by simp
    qed
  qed
qed

lemma run_sched_success:
  assumes step: "\<And>i us w u' w'. P us w \<Longrightarrow> i < length us \<Longrightarrow> step i (us ! i) w = (None, u', w')
                   \<Longrightarrow> P (us[i := u']) w'"
    and init: "P us w"
    and run: "run_sched step sched (us, w) = (None, us', w')"
  shows "P us' w'"
  using init run
proof (induction sched arbitrary: us w)
  case Nil
  then show ?case by simp
next
  case (Cons i sched)
  show ?case
  proof (cases "i < length us")
    case False
    with Cons show ?thesis by simp
  next
    case True
    obtain q u1 w1 where s: "step i (us ! i) w = (q, u1, w1)"
      by (cases "step i (us ! i) w") auto
    show ?thesis
    proof (cases q)
      case None
      have P1: "P (us[i := u1]) w1" using step [OF Cons.prems(1) True] s None by simp
      from None Cons.prems(2) True s have "run_sched step sched (us[i := u1], w1) = (None, us', w')" by simp
      from Cons.IH [OF P1 this] show ?thesis .
    next
      case (Some p)
      with Cons.prems(2) True s show ?thesis by simp
    qed
  qed
qed

lemma run_sched_rank_mono:
  fixes rank :: "'u \<Rightarrow> nat"
  assumes dec: "\<And>i u w u' w'. step i u w = (None, u', w') \<Longrightarrow> rank u' = rank u - 1"
    and run: "run_sched step sched (us, w) = (None, us', w')"
    and bound: "\<forall>j < length us. rank (us ! j) \<le> f j"
  shows "\<forall>j < length us'. rank (us' ! j) \<le> f j"
proof -
  let ?P = "\<lambda>vs w. length vs = length us \<and> (\<forall>j < length vs. rank (vs ! j) \<le> f j)"
  have "?P us' w'"
  proof (rule run_sched_success [where P = ?P and step = step and us = us and w = w and sched = sched])
    show "?P us w" using bound by simp
  next
    show "run_sched step sched (us, w) = (None, us', w')" using run .
  next
    fix i vs w u' w'
    assume a: "?P vs w" "i < length vs" "step i (vs ! i) w = (None, u', w')"
    from dec [OF a(3)] have "rank u' \<le> rank (vs ! i)" by simp
    with a show "?P (vs[i := u']) w'"
      by (auto simp: nth_list_update intro: le_trans)
  qed
  then show ?thesis by simp
qed

lemma run_sched_replicate:
  fixes rank :: "'u \<Rightarrow> nat"
  assumes dec: "\<And>i u w u' w'. step i u w = (None, u', w') \<Longrightarrow> rank u' = rank u - 1"
    and run: "run_sched step (replicate k i) (us, w) = (None, us', w')"
    and i: "i < length us"
  shows "rank (us' ! i) = rank (us ! i) - k"
  using run i
proof (induction k arbitrary: us w)
  case 0
  then show ?case by simp
next
  case (Suc k)
  obtain q u1 w1 where s: "step i (us ! i) w = (q, u1, w1)"
    by (cases "step i (us ! i) w") auto
  with Suc.prems have q: "q = None" by (cases q) auto
  with Suc.prems s have r: "run_sched step (replicate k i) (us[i := u1], w1) = (None, us', w')" by simp
  from Suc.IH [OF r] Suc.prems(2) have "rank (us' ! i) = rank u1 - k" by simp
  with dec [of i "us ! i" w u1 w1] s q show ?case by simp
qed

lemma run_sched_blocks:
  fixes rank :: "'u \<Rightarrow> nat"
  assumes dec: "\<And>i u w u' w'. step i u w = (None, u', w') \<Longrightarrow> rank u' = rank u - 1"
    and run: "run_sched step (concat (map (replicate k) js)) (us, w) = (None, us', w')"
    and bound: "\<forall>j < length us. rank (us ! j) \<le> k"
  shows "\<forall>j \<in> set js. j < length us \<longrightarrow> rank (us' ! j) = 0"
  using run bound
proof (induction js arbitrary: us w)
  case Nil
  then show ?case by simp
next
  case (Cons i js)
  from Cons.prems(1) obtain us1 w1 where
    r1: "run_sched step (replicate k i) (us, w) = (None, us1, w1)" and
    r2: "run_sched step (concat (map (replicate k) js)) (us1, w1) = (None, us', w')"
    by (auto simp: run_sched_append split: prod.splits option.splits)
  have len1: "length us1 = length us" using run_sched_length [OF r1] .
  have len2: "length us' = length us1" using run_sched_length [OF r2] .
  have b1: "\<forall>j < length us1. rank (us1 ! j) \<le> k"
    using run_sched_rank_mono [where step = step and rank = rank and f = "\<lambda>_. k", OF dec r1] Cons.prems(2) by simp
  have rest: "\<forall>j \<in> set js. j < length us \<longrightarrow> rank (us' ! j) = 0"
    using Cons.IH [OF r2 b1] len1 by simp
  have "i < length us \<longrightarrow> rank (us' ! i) = 0"
  proof
    assume i: "i < length us"
    from run_sched_replicate [where step = step and rank = rank, OF dec r1 i] Cons.prems(2) i
    have z: "rank (us1 ! i) = 0" by simp
    have "\<forall>j < length us1. rank (us1 ! j) \<le> rank (us1 ! j)" by simp
    from run_sched_rank_mono [where step = step and rank = rank and f = "\<lambda>j. rank (us1 ! j)", OF dec r2]
    have "\<forall>j < length us'. rank (us' ! j) \<le> rank (us1 ! j)" by simp
    with i len1 len2 have "rank (us' ! i) \<le> rank (us1 ! i)" by simp
    with z show "rank (us' ! i) = 0" by simp
  qed
  with rest show ?case by simp
qed

lemma run_sched_wait:
  fixes rank :: "'u \<Rightarrow> nat"
  assumes dec: "\<And>i u w u' w'. step i u w = (None, u', w') \<Longrightarrow> rank u' = rank u - 1"
    and bound: "\<And>u. rank u \<le> k"
    and run: "run_sched step (sched @ wait_sched k (length us)) (us, w) = (None, us', w')"
  shows "length us' = length us \<and> (\<forall>j < length us. rank (us' ! j) = 0)"
proof -
  from run obtain us1 w1 where
    r1: "run_sched step sched (us, w) = (None, us1, w1)" and
    r2: "run_sched step (wait_sched k (length us)) (us1, w1) = (None, us', w')"
    by (auto simp: run_sched_append split: prod.splits option.splits)
  have len1: "length us1 = length us" using run_sched_length [OF r1] .
  have len2: "length us' = length us1" using run_sched_length [OF r2] .
  from r2 have r2': "run_sched step (concat (map (replicate k) [0..<length us])) (us1, w1) = (None, us', w')"
    by (simp add: wait_sched_def)
  from run_sched_blocks [where step = step and rank = rank, OF dec r2'] bound len1
  have "\<forall>j \<in> set [0..<length us]. j < length us1 \<longrightarrow> rank (us' ! j) = 0" by simp
  with len1 len2 show ?thesis by simp
qed

lemma triple_collapse: "fst x = a \<Longrightarrow> x = (a, fst (snd x), snd (snd x))"
  by (cases x) auto

section \<open>The push command\<close>

lemma worker_events_emit:
  "worker_events j (trace (emit who e r w)) =
     worker_events j (trace w) @ (if who = Worker j then [e] else [])"
  by (simp add: worker_events_def emit_def)

lemma push_step_rank:
  "push_step env prefix loc i u w = (None, u', w') \<Longrightarrow> push_rank u' = push_rank u - 1"
  by (cases "(env, prefix, loc, i, u, w)" rule: push_step.cases)
     (auto simp: Let_def split: sum.splits prod.splits option.splits if_splits)

lemma push_rank_le: "push_rank u \<le> 4"
  by (cases u rule: push_rank.cases) auto

lemma push_step_path:
  "push_step env prefix loc i u w = (r, u', w') \<Longrightarrow> fst u' = fst u"
  by (cases "(env, prefix, loc, i, u, w)" rule: push_step.cases)
     (auto simp: Let_def split: sum.splits prod.splits option.splits if_splits)

lemma push_step_others:
  "push_step env prefix loc i u w = (r, u', w') \<Longrightarrow> j \<noteq> i \<Longrightarrow>
     worker_events j (trace w') = worker_events j (trace w)"
  by (cases "(env, prefix, loc, i, u, w)" rule: push_step.cases)
     (auto simp: Let_def worker_events_emit split: sum.splits prod.splits option.splits if_splits)

lemma push_step_own:
  "push_step env prefix loc i u w = (None, u', w') \<Longrightarrow>
   worker_events i (trace w) = push_events env prefix loc u \<Longrightarrow> push_flag_ok env prefix u \<Longrightarrow>
     worker_events i (trace w') = push_events env prefix loc u' \<and> push_flag_ok env prefix u'"
  by (cases "(env, prefix, loc, i, u, w)" rule: push_step.cases)
     (auto simp: Let_def worker_events_emit upload_event_def retracts_def count_line_def
           split: sum.splits prod.splits option.splits if_splits)

lemma push_inv_step:
  assumes inv: "push_inv env prefix loc files us w"
    and i: "i < length us"
    and step: "push_step env prefix loc i (us ! i) w = (None, u', w')"
  shows "push_inv env prefix loc files (us[i := u']) w'"
proof -
  have path: "fst u' = fst (us ! i)" using push_step_path [OF step] .
  have "map fst (us[i := u']) = (map fst us)[i := fst (us ! i)]"
    using path by (simp add: map_update)
  also have "\<dots> = map fst us"
    using i by (simp add: list_update_same_conv)
  finally have m: "map fst (us[i := u']) = files"
    using inv by (simp add: push_inv_def)
  have own: "worker_events i (trace w') = push_events env prefix loc u' \<and> push_flag_ok env prefix u'"
    using push_step_own [OF step] inv i by (simp add: push_inv_def)
  have others: "\<And>j. j \<noteq> i \<Longrightarrow> worker_events j (trace w') = worker_events j (trace w)"
    using push_step_others [OF step] by simp
  show ?thesis
    unfolding push_inv_def
  proof (intro conjI allI impI)
    show "map fst (us[i := u']) = files" using m .
  next
    fix j assume j: "j < length (us[i := u'])"
    show "worker_events j (trace w') = push_events env prefix loc (us[i := u'] ! j)"
      using own others [of j] inv j by (cases "j = i") (simp_all add: push_inv_def)
  next
    fix j assume j: "j < length (us[i := u'])"
    show "push_flag_ok env prefix (us[i := u'] ! j)"
      using own inv j by (cases "j = i") (simp_all add: push_inv_def)
  qed
qed

lemma push_done_iff: "push_rank u = 0 \<longleftrightarrow> (\<exists>fs h. snd u = PushDone fs h)"
  by (cases u rule: push_rank.cases) auto

lemma push_command_success:
  fixes env :: "('r, 'fs) collaborators"
  assumes run: "projectPushCommand env flag sched r0 = (None, us, w)"
  shows "\<exists>loc locs.
           fst (client_Locales env r0) = Inr (loc # locs) \<and>
           length us = length (Files (ProjectConfig env)) \<and>
           (\<forall>i < length us. \<exists>fs.
              \<not> isl (filetypeForProjectFile env (Files (ProjectConfig env) ! i)) \<and>
              us ! i = (Files (ProjectConfig env) ! i,
                        PushDone fs (\<not> retracts env (fst (getPrefix env flag)) fs)) \<and>
              worker_events i (trace w) =
                push_events env (fst (getPrefix env flag)) loc (us ! i))"
proof -
  let ?files = "Files (ProjectConfig env)"
  let ?prefix = "fst (getPrefix env flag)"
  let ?units = "map (\<lambda>p. (p, PushUpload)) ?files :: (string \<times> 'fs push_state) list"
  obtain res r1 where loc: "client_Locales env r0 = (res, r1)"
    by (cases "client_Locales env r0") auto
  let ?w1 = "\<lparr>remote = r1, trace = map (Pair MainRoutine) (snd (getPrefix env flag) @ [CallLocales res])\<rparr>"
  from run loc obtain l ls where res: "res = Inr (l # ls)"
    by (auto simp: projectPushCommand_def Let_def split: prod.splits sum.splits list.splits)
  from run loc res have r: "run_sched (push_step env ?prefix l)
      (sched @ wait_sched 4 (length ?units)) (?units, ?w1) = (None, us, w)"
    by (auto simp: projectPushCommand_def Let_def split: prod.splits)
  have init: "push_inv env ?prefix l ?files ?units ?w1"
    by (auto simp: push_inv_def worker_events_def comp_def)
  have inv: "push_inv env ?prefix l ?files us w"
    by (rule run_sched_success [where P = "push_inv env ?prefix l ?files"
          and step = "push_step env ?prefix l", OF _ init r])
       (rule push_inv_step)
  have fin: "length us = length ?units \<and> (\<forall>j < length ?units. push_rank (us ! j) = 0)"
  proof (rule run_sched_wait [where step = "push_step env ?prefix l" and rank = push_rank
          and k = 4 and sched = sched and w = ?w1 and w' = w])
    show "\<And>i u w u' w'. push_step env ?prefix l i u w = (None, u', w')
            \<Longrightarrow> push_rank u' = push_rank u - 1"
      by (rule push_step_rank)
    show "\<And>u :: string \<times> 'fs push_state. push_rank u \<le> 4" by (rule push_rank_le)
    show "run_sched (push_step env ?prefix l) (sched @ wait_sched 4 (length ?units)) (?units, ?w1)
            = (None, us, w)" by (rule r)
  qed
  have len: "length us = length ?files" using fin by simp
  have "\<forall>i < length us. \<exists>fs.
          \<not> isl (filetypeForProjectFile env (?files ! i)) \<and>
          us ! i = (?files ! i, PushDone fs (\<not> retracts env ?prefix fs)) \<and>
          worker_events i (trace w) = push_events env ?prefix l (us ! i)"
  proof (intro allI impI)
    fix i assume i: "i < length us"
    from fin i len obtain fs h where st: "snd (us ! i) = PushDone fs h"
      by (auto simp: push_done_iff)
    from inv i have p: "fst (us ! i) = ?files ! i"
      by (metis push_inv_def nth_map)
    from inv i have ev: "worker_events i (trace w) = push_events env ?prefix l (us ! i)"
      and ok: "push_flag_ok env ?prefix (us ! i)"
      by (simp_all add: push_inv_def)
    from st p have u: "us ! i = (?files ! i, PushDone fs h)"
      by (cases "us ! i") simp
    with ok have "h = (\<not> retracts env ?prefix fs)"
      and "\<not> isl (filetypeForProjectFile env (?files ! i))" by simp_all
    with u ev show "\<exists>fs. \<not> isl (filetypeForProjectFile env (?files ! i)) \<and> us ! i = (?files ! i, PushDone fs (\<not> retracts env ?prefix fs)) \<and>
          worker_events i (trace w) = push_events env ?prefix l (us ! i)" by auto
  qed
  with loc res len show ?thesis by auto
qed

lemma push_step_no_delete:
  "push_step env [] loc i u w = (r, u', w') \<Longrightarrow>
     filter (\<lambda>x. is_delete (snd x)) (trace w') = filter (\<lambda>x. is_delete (snd x)) (trace w)"
  by (cases "(env, [] :: string, loc, i, u, w)" rule: push_step.cases)
     (auto simp: Let_def emit_def split: sum.splits prod.splits option.splits if_splits)

lemma getPrefix_no_delete:
  "filter is_delete (snd (getPrefix env flag)) = []"
  by (simp add: getPrefix_def Let_def)

text \<open>
  Claim C1. In a run of the push command that ends without a panic and has a non-empty
  cleaned prefix, the goroutine of every project file uploads the file, asks for the
  status of the remote file in the first locale, and then issues the delete of the
  remote file if and only if the awaiting-authorization count of that status is zero.
  When the delete is issued, \<^verbatim>\<open>hasNewStrings\<close> is false and the goroutine prints
  nothing; otherwise it is true and the line with the count is printed. This holds for
  every schedule of the goroutines.
\<close>

theorem push_prefix_deletes_iff_nothing_awaits:
  fixes env :: "('r, 'fs) collaborators"
  assumes run: "projectPushCommand env flag sched r0 = (None, us, w)"
    and prefix: "fst (getPrefix env flag) \<noteq> []"
    and i: "i < length (Files (ProjectConfig env))"
  shows "\<exists>fs ft firstLocale rest.
           fst (client_Locales env r0) = Inr (firstLocale # rest) \<and>
           filetypeForProjectFile env (Files (ProjectConfig env) ! i) = Inr ft \<and>
           worker_events i (trace w) =
             [CallUpload (Files (ProjectConfig env) ! i)
                \<lparr>FileUri = remoteFile (fst (getPrefix env flag)) (Files (ProjectConfig env) ! i),
                 ReqFileType = ft,
                 ReqParserConfig = ParserConfig (FileConfig (ProjectConfig env))\<rparr> None,
              CallStatus (remoteFile (fst (getPrefix env flag)) (Files (ProjectConfig env) ! i))
                firstLocale (Inr fs)]
             @ (if AwaitingAuthorizationCount env fs = 0
                then [CallDelete (remoteFile (fst (getPrefix env flag))
                                    (Files (ProjectConfig env) ! i)) None]
                else [Print (fmt_3d (AwaitingAuthorizationCount env fs)
                             @ '' unauthorised strings in ''
                             @ remoteFile (fst (getPrefix env flag)) (Files (ProjectConfig env) ! i)
                             @ newline)]) \<and>
           filter is_delete (worker_events i (trace w)) =
             (if AwaitingAuthorizationCount env fs = 0
              then [CallDelete (remoteFile (fst (getPrefix env flag))
                                  (Files (ProjectConfig env) ! i)) None]
              else []) \<and>
           (filter is_print (worker_events i (trace w)) = []) =
             (AwaitingAuthorizationCount env fs = 0) \<and>
           us ! i = (Files (ProjectConfig env) ! i,
                     PushDone fs (AwaitingAuthorizationCount env fs \<noteq> 0))"
proof -
  from push_command_success [OF run] obtain loc locs where
    l: "fst (client_Locales env r0) = Inr (loc # locs)" and
    len: "length us = length (Files (ProjectConfig env))" and
    all: "\<forall>i < length us. \<exists>fs.
            \<not> isl (filetypeForProjectFile env (Files (ProjectConfig env) ! i)) \<and>
            us ! i = (Files (ProjectConfig env) ! i,
                      PushDone fs (\<not> retracts env (fst (getPrefix env flag)) fs)) \<and>
            worker_events i (trace w) = push_events env (fst (getPrefix env flag)) loc (us ! i)"
    by blast
  from all i len obtain fs where
    ft: "\<not> isl (filetypeForProjectFile env (Files (ProjectConfig env) ! i))" and
    u: "us ! i = (Files (ProjectConfig env) ! i,
                  PushDone fs (\<not> retracts env (fst (getPrefix env flag)) fs))" and
    ev: "worker_events i (trace w) = push_events env (fst (getPrefix env flag)) loc (us ! i)"
    by auto
  from ft obtain t where t: "filetypeForProjectFile env (Files (ProjectConfig env) ! i) = Inr t"
    by (cases "filetypeForProjectFile env (Files (ProjectConfig env) ! i)") auto
  have r: "retracts env (fst (getPrefix env flag)) fs = (AwaitingAuthorizationCount env fs = 0)"
    using prefix by (simp add: retracts_def)
  show ?thesis
    apply (rule exI [of _ fs], rule exI [of _ t], rule exI [of _ loc], rule exI [of _ locs])
    using l t u ev r by (simp add: upload_event_def count_line_def)
qed

theorem push_prefix_deletes_iff_nothing_awaits_witness:
  "fst (projectPushCommand (example_project [''copy.json''] [''de-DE'', ''fr-FR''] [])
          ''feature-x'' [] []) = None
   \<and> fst (getPrefix (example_project [''copy.json''] [''de-DE'', ''fr-FR''] []) ''feature-x'') \<noteq> []
   \<and> (0::nat) < length (Files (ProjectConfig (example_project [''copy.json''] [''de-DE'', ''fr-FR''] [])))
   \<and> filter is_delete
        (worker_events 0
           (trace (snd (snd (projectPushCommand
              (example_project [''copy.json''] [''de-DE'', ''fr-FR''] []) ''feature-x'' [] [])))))
       = [CallDelete ''/feature-x/copy.json'' None]"
proof -
  let ?env = "example_project [''copy.json''] [''de-DE'', ''fr-FR''] []"
  let ?run = "projectPushCommand ?env ''feature-x'' [] []"
  have ok: "fst ?run = None" by code_simp
  have run: "?run = (None, fst (snd ?run), snd (snd ?run))"
    using ok by (rule triple_collapse)
  have prefix: "fst (getPrefix ?env ''feature-x'') \<noteq> []" by code_simp
  have i: "(0::nat) < length (Files (ProjectConfig ?env))" by code_simp
  from push_prefix_deletes_iff_nothing_awaits [OF run prefix i]
  obtain fs where
    st: "fst (snd ?run) ! 0 =
           (Files (ProjectConfig ?env) ! 0, PushDone fs (AwaitingAuthorizationCount ?env fs \<noteq> 0))"
    and del: "filter is_delete (worker_events 0 (trace (snd (snd ?run)))) =
             (if AwaitingAuthorizationCount ?env fs = 0
              then [CallDelete (remoteFile (fst (getPrefix ?env ''feature-x''))
                                  (Files (ProjectConfig ?env) ! 0)) None]
              else [])"
    by blast
  have us: "fst (snd ?run) ! 0 = (''copy.json'', PushDone (0, 0, 7) False)" by code_simp
  from st us have a: "AwaitingAuthorizationCount ?env fs = 0" by simp
  have rf: "remoteFile (fst (getPrefix ?env ''feature-x'')) (Files (ProjectConfig ?env) ! 0)
              = ''/feature-x/copy.json''" by code_simp
  from del a rf have "filter is_delete (worker_events 0 (trace (snd (snd ?run))))
       = [CallDelete ''/feature-x/copy.json'' None]" by simp
  with ok prefix i show ?thesis by (intro conjI)
qed

text \<open>
  Claim C2. In a run of the push command whose cleaned prefix is empty, no delete is
  ever issued, whatever the statuses are, for every schedule, and also when the run
  ends in a panic.
\<close>

theorem push_no_prefix_never_deletes:
  fixes env :: "('r, 'fs) collaborators"
  assumes run: "projectPushCommand env flag sched r0 = (res, us, w)"
    and prefix: "fst (getPrefix env flag) = []"
  shows "filter (\<lambda>x. is_delete (snd x)) (trace w) = []"
proof -
  let ?P = "\<lambda>(us :: (string \<times> 'fs push_state) list) (w :: ('r, 'fs) world).
              filter (\<lambda>x. is_delete (snd x)) (trace w) = []"
  obtain lres r1 where loc: "client_Locales env r0 = (lres, r1)"
    by (cases "client_Locales env r0") auto
  let ?w1 = "\<lparr>remote = r1,
              trace = map (Pair MainRoutine) (snd (getPrefix env flag) @ [CallLocales lres])\<rparr>"
  have out: "snd (getPrefix env flag) = []"
    using prefix by (simp add: getPrefix_def Let_def)
  have init: "?P [] ?w1" by (simp add: out)
  show ?thesis
  proof (cases lres)
    case (Inl e)
    with run loc out show ?thesis
      by (auto simp: projectPushCommand_def Let_def split: prod.splits)
  next
    case (Inr locales)
    show ?thesis
    proof (cases locales)
      case Nil
      with run loc out Inr show ?thesis
        by (auto simp: projectPushCommand_def Let_def split: prod.splits)
    next
      case (Cons l ls)
      let ?units = "map (\<lambda>p. (p, PushUpload)) (Files (ProjectConfig env))
                      :: (string \<times> 'fs push_state) list"
      from run loc Inr Cons prefix have r: "run_sched (push_step env [] l)
          (sched @ wait_sched 4 (length ?units)) (?units, ?w1) = (res, us, w)"
        by (auto simp: projectPushCommand_def Let_def split: prod.splits)
      show ?thesis
      proof (rule run_sched_always [where P = ?P and step = "push_step env [] l"
                and us = ?units and w = ?w1 and r = res and us' = us and w' = w
                and sched = "sched @ wait_sched 4 (length ?units)"])
        show "?P ?units ?w1" by (simp add: out)
        show "run_sched (push_step env [] l) (sched @ wait_sched 4 (length ?units)) (?units, ?w1)
                = (res, us, w)" by (rule r)
        fix i us w r u' w'
        assume "?P us w" "i < length us" "push_step env [] l i (us ! i) w = (r, u', w')"
        then show "?P (us[i := u']) w'" using push_step_no_delete by metis
      qed
    qed
  qed
qed

theorem push_no_prefix_never_deletes_witness:
  "fst (getPrefix (example_project [''copy.json''] [''de-DE'', ''fr-FR''] []) []) = []
   \<and> fst (projectPushCommand (example_project [''copy.json''] [''de-DE'', ''fr-FR''] [])
            [] [0, 0, 7] []) = None
   \<and> filter (\<lambda>x. is_delete (snd x))
        (trace (snd (snd (projectPushCommand
           (example_project [''copy.json''] [''de-DE'', ''fr-FR''] []) [] [0, 0, 7] [])))) = []"
proof -
  let ?env = "example_project [''copy.json''] [''de-DE'', ''fr-FR''] []"
  let ?run = "projectPushCommand ?env [] [0, 0, 7] []"
  have ok: "fst ?run = None" by code_simp
  have run: "?run = (None, fst (snd ?run), snd (snd ?run))"
    using ok by (rule triple_collapse)
  have prefix: "fst (getPrefix ?env []) = []" by code_simp
  from prefix ok push_no_prefix_never_deletes [OF run prefix] show ?thesis
    by (intro conjI)
qed

text \<open>
  Claim C10. When \<^verbatim>\<open>client.Locales()\<close> returns an empty list and no error, the push
  command panics with an index out of range at \<^verbatim>\<open>locales[0]\<close>: no goroutine has been
  started, no upload has been issued, and the only events are the prefix line, if any,
  and the call of \<^verbatim>\<open>Locales\<close>.
\<close>

theorem push_empty_locales_panics:
  fixes env :: "('r, 'fs) collaborators"
  assumes "fst (client_Locales env r0) = Inr []"
  shows "projectPushCommand env flag sched r0 =
           (Some (PanicIndex 0 0), [],
            \<lparr>remote = snd (client_Locales env r0),
             trace = map (Pair MainRoutine) (snd (getPrefix env flag) @ [CallLocales (Inr [])])\<rparr>)
         \<and> filter (\<lambda>x. is_upload (snd x)) (trace (snd (snd (projectPushCommand env flag sched r0)))) = []
         \<and> worker_events i (trace (snd (snd (projectPushCommand env flag sched r0)))) = []"
proof -
  have up: "filter is_upload (snd (getPrefix env flag)) = []"
    by (simp add: getPrefix_def Let_def)
  have run: "projectPushCommand env flag sched r0 =
           (Some (PanicIndex 0 0), [],
            \<lparr>remote = snd (client_Locales env r0),
             trace = map (Pair MainRoutine) (snd (getPrefix env flag) @ [CallLocales (Inr [])])\<rparr>)"
    using assms by (cases "client_Locales env r0")
      (simp add: projectPushCommand_def Let_def split: prod.splits)
  show ?thesis
    unfolding run using up
    by (simp add: worker_events_def filter_map comp_def)
qed

theorem push_empty_locales_panics_witness:
  "fst (client_Locales (example_project [''copy.json''] [] []) []) = Inr []
   \<and> fst (projectPushCommand (example_project [''copy.json''] [] []) ''feature-x'' [0] [])
       = Some (PanicIndex 0 0)
   \<and> worker_events 0
        (trace (snd (snd (projectPushCommand (example_project [''copy.json''] [] [])
                            ''feature-x'' [0] [])))) = []"
proof -
  let ?env = "example_project [''copy.json''] [] []"
  have h: "fst (client_Locales ?env []) = Inr []" by code_simp
  note t = push_empty_locales_panics [OF h, of "''feature-x''" "[0]" 0]
  have a: "fst (projectPushCommand ?env ''feature-x'' [0] []) = Some (PanicIndex 0 0)"
    using arg_cong [OF conjunct1 [OF t], of fst] by simp
  have b: "worker_events 0 (trace (snd (snd (projectPushCommand ?env ''feature-x'' [0] [])))) = []"
    using conjunct2 [OF conjunct2 [OF t]] .
  from h a b show ?thesis by (intro conjI)
qed

section \<open>Clean paths\<close>

lemma split_on_not_Nil: "split_on sep s \<noteq> []"
  by (induction s) (auto split: list.splits)

lemma split_on_plain: "sep \<notin> set x \<Longrightarrow> split_on sep x = [x]"
  by (induction x) auto

lemma split_on_append: "sep \<notin> set x \<Longrightarrow> split_on sep (x @ sep # rest) = x # split_on sep rest"
  by (induction x) (auto simp: split_on_not_Nil split: list.splits)

lemma split_join:
  "names \<noteq> [] \<Longrightarrow> list_all (\<lambda>n. sep \<notin> set n) names \<Longrightarrow> split_on sep (join_on sep names) = names"
proof (induction names rule: join_on.induct)
  case (1 sep)
  then show ?case by simp
next
  case (2 sep x)
  then show ?case by (simp add: split_on_plain)
next
  case (3 sep x y ys)
  then show ?case by (simp add: split_on_append)
qed

lemma clean_elems_plain:
  "list_all plain_name names \<Longrightarrow> clean_elems rooted st names = rev st @ names"
  by (induction names arbitrary: st) (auto simp: plain_name_def)

lemma join_on_Nil_iff: "list_all plain_name names \<Longrightarrow> names \<noteq> [] \<Longrightarrow> join_on sep names \<noteq> []"
  by (induction names rule: induct_list012) (auto simp: plain_name_def)

lemma Clean_rooted: "filepath_Clean (CHR ''/'' # p) \<noteq> [] \<and> hd (filepath_Clean (CHR ''/'' # p)) = CHR ''/''"
  by (simp add: filepath_Clean_def Let_def)

lemma Clean_rooted_plain:
  assumes "names \<noteq> []" "list_all plain_name names"
  shows "filepath_Clean (CHR ''/'' # join_path names) = CHR ''/'' # join_path names"
proof -
  have "list_all (\<lambda>n. CHR ''/'' \<notin> set n) names"
    using assms(2) by (induction names) (auto simp: plain_name_def)
  then have "split_path (join_path names) = names"
    using assms(1) by (rule split_join [rotated])
  then show ?thesis
    using assms by (simp add: filepath_Clean_def Let_def clean_elems_plain)
qed

lemma cleanPrefix_feature_x: "cleanPrefix ''feature-x'' = ''/feature-x''"
  by code_simp

lemma remoteFile_feature_x: "remoteFile ''/feature-x'' ''copy.json'' = ''/feature-x/copy.json''"
  by code_simp

lemma getPrefix_source:
  "fst (getPrefix env flag) = cleanPrefix (if flag = [] then pushPrefix env else flag)"
  by (simp add: getPrefix_def Let_def)

section \<open>The remote path of a pushed file\<close>

text \<open>
  Claim C6. In a run of the push command with the prefix \<^verbatim>\<open>feature-x\<close>, given by
  the flag or, without a flag, by \<^verbatim>\<open>pushPrefix()\<close>, that ends without a panic, the
  cleaned prefix is \<^verbatim>\<open>/feature-x\<close> and the goroutine of the
  file \<^verbatim>\<open>copy.json\<close> uploads it to the remote path \<^verbatim>\<open>/feature-x/copy.json\<close>. If the
  status that this goroutine received has an awaiting-authorization count of zero, the
  status was asked for the first locale, the goroutine then deleted the remote file at
  that path, these three calls are all it did, and it printed nothing.
\<close>

theorem push_feature_x_copy_json:
  fixes env :: "('r, 'fs) collaborators"
  assumes run: "projectPushCommand env flag sched r0 = (None, us, w)"
    and given: "(if flag = [] then pushPrefix env else flag) = ''feature-x''"
    and i: "i < length (Files (ProjectConfig env))"
    and name: "Files (ProjectConfig env) ! i = ''copy.json''"
    and st: "CallStatus uri l (Inr fs) \<in> set (worker_events i (trace w))"
    and zero: "AwaitingAuthorizationCount env fs = 0"
  shows "fst (getPrefix env flag) = ''/feature-x'' \<and>
         (\<exists>rest. fst (client_Locales env r0) = Inr (l # rest)) \<and>
         (\<exists>ft. worker_events i (trace w) =
            [CallUpload ''copy.json''
               \<lparr>FileUri = ''/feature-x/copy.json'', ReqFileType = ft,
                ReqParserConfig = ParserConfig (FileConfig (ProjectConfig env))\<rparr> None,
             CallStatus ''/feature-x/copy.json'' l (Inr fs),
             CallDelete ''/feature-x/copy.json'' None]) \<and>
         filter is_print (worker_events i (trace w)) = [] \<and>
         us ! i = (''copy.json'', PushDone fs False)"
proof -
  have prefix: "fst (getPrefix env flag) = ''/feature-x''"
    using given by (simp only: getPrefix_source cleanPrefix_feature_x)
  from push_command_success [OF run] obtain loc locs where
    l: "fst (client_Locales env r0) = Inr (loc # locs)" and
    len: "length us = length (Files (ProjectConfig env))" and
    all: "\<forall>i < length us. \<exists>fs.
            \<not> isl (filetypeForProjectFile env (Files (ProjectConfig env) ! i)) \<and>
            us ! i = (Files (ProjectConfig env) ! i,
                      PushDone fs (\<not> retracts env (fst (getPrefix env flag)) fs)) \<and>
            worker_events i (trace w) =
              push_events env (fst (getPrefix env flag)) loc (us ! i)"
    by blast
  from all i len name prefix obtain fs' where
    ft: "\<not> isl (filetypeForProjectFile env ''copy.json'')" and
    u: "us ! i = (''copy.json'', PushDone fs' (\<not> retracts env ''/feature-x'' fs'))" and
    ev: "worker_events i (trace w) = push_events env ''/feature-x'' loc (us ! i)"
    by auto
  from ft obtain t where t: "filetypeForProjectFile env ''copy.json'' = Inr t"
    by (cases "filetypeForProjectFile env ''copy.json''") auto
  have evs: "worker_events i (trace w) =
      [upload_event env ''/feature-x'' ''copy.json'',
       CallStatus ''/feature-x/copy.json'' loc (Inr fs')]
      @ (if retracts env ''/feature-x'' fs' then [CallDelete ''/feature-x/copy.json'' None]
         else [Print (count_line env ''/feature-x'' ''copy.json'' fs')])"
    using ev u by (simp add: remoteFile_feature_x)
  from st evs have same: "uri = ''/feature-x/copy.json'' \<and> l = loc \<and> fs = fs'"
    by (auto simp: upload_event_def split: if_splits)
  with zero have r: "retracts env ''/feature-x'' fs'" by (simp add: retracts_def)
  from same l have loc1: "\<exists>rest. fst (client_Locales env r0) = Inr (l # rest)" by simp
  have e3: "\<exists>ft. worker_events i (trace w) =
            [CallUpload ''copy.json''
               \<lparr>FileUri = ''/feature-x/copy.json'', ReqFileType = ft,
                ReqParserConfig = ParserConfig (FileConfig (ProjectConfig env))\<rparr> None,
             CallStatus ''/feature-x/copy.json'' l (Inr fs),
             CallDelete ''/feature-x/copy.json'' None]"
    using evs r same t by (simp add: upload_event_def remoteFile_feature_x)
  then have np: "filter is_print (worker_events i (trace w)) = []" by auto
  from u r same have st: "us ! i = (''copy.json'', PushDone fs False)" by simp
  from prefix loc1 e3 np st show ?thesis by (intro conjI)
qed

theorem push_feature_x_copy_json_witness:
  "fst (projectPushCommand (example_project [''copy.json''] [''de-DE'', ''fr-FR''] [])
          ''feature-x'' [] []) = None
   \<and> (if ''feature-x'' = [] then pushPrefix (example_project [''copy.json''] [''de-DE'', ''fr-FR''] [])
       else ''feature-x'') = ''feature-x''
   \<and> (0::nat) < length (Files (ProjectConfig (example_project [''copy.json''] [''de-DE'', ''fr-FR''] [])))
   \<and> Files (ProjectConfig (example_project [''copy.json''] [''de-DE'', ''fr-FR''] [])) ! 0 = ''copy.json''
   \<and> CallStatus ''/feature-x/copy.json'' ''de-DE'' (Inr (0, 0, 7))
        \<in> set (worker_events 0 (trace (snd (snd (projectPushCommand
                  (example_project [''copy.json''] [''de-DE'', ''fr-FR''] []) ''feature-x'' [] [])))))
   \<and> AwaitingAuthorizationCount (example_project [''copy.json''] [''de-DE'', ''fr-FR''] []) (0, 0, 7) = 0
   \<and> filter is_print (worker_events 0 (trace (snd (snd (projectPushCommand
                  (example_project [''copy.json''] [''de-DE'', ''fr-FR''] []) ''feature-x'' [] []))))) = []
   \<and> fst (snd (projectPushCommand (example_project [''copy.json''] [''de-DE'', ''fr-FR''] [])
                  ''feature-x'' [] [])) ! 0 = (''copy.json'', PushDone (0, 0, 7) False)"
proof -
  let ?env = "example_project [''copy.json''] [''de-DE'', ''fr-FR''] []"
  let ?run = "projectPushCommand ?env ''feature-x'' [] []"
  have ok: "fst ?run = None" by code_simp
  have run: "?run = (None, fst (snd ?run), snd (snd ?run))"
    using ok by (rule triple_collapse)
  have given: "(if ''feature-x'' = [] then pushPrefix ?env else ''feature-x'') = ''feature-x''"
    by simp
  have i: "(0::nat) < length (Files (ProjectConfig ?env))" by code_simp
  have name: "Files (ProjectConfig ?env) ! 0 = ''copy.json''" by code_simp
  have st: "CallStatus ''/feature-x/copy.json'' ''de-DE'' (Inr (0, 0, 7))
              \<in> set (worker_events 0 (trace (snd (snd ?run))))" by code_simp
  have zero: "AwaitingAuthorizationCount ?env (0, 0, 7) = 0" by code_simp
  note t = push_feature_x_copy_json [OF run given i name st zero]
  have np: "filter is_print (worker_events 0 (trace (snd (snd ?run)))) = []"
    using t by blast
  have u: "fst (snd ?run) ! 0 = (''copy.json'', PushDone (0, 0, 7) False)"
    using t by blast
  from ok given i name st zero np u show ?thesis by (intro conjI)
qed

text \<open>
  Claim C5, as amended. When the cleaned push prefix is empty, the remote path used for
  the upload of a project file is \<^verbatim>\<open>filepath.Clean("/" + path)\<close>, the project path
  cleaned and rooted: it always begins with the separator, and for a project path made
  of plain elements it is the separator followed by the project path. It is therefore
  never equal to a relative project path.
\<close>

theorem push_empty_prefix_remote_path:
  fixes env :: "('r, 'fs) collaborators"
  assumes run: "projectPushCommand env flag sched r0 = (None, us, w)"
    and prefix: "fst (getPrefix env flag) = []"
    and i: "i < length (Files (ProjectConfig env))"
  shows "\<exists>ft uri.
           filter is_upload (worker_events i (trace w)) =
             [CallUpload (Files (ProjectConfig env) ! i)
                \<lparr>FileUri = uri, ReqFileType = ft,
                 ReqParserConfig = ParserConfig (FileConfig (ProjectConfig env))\<rparr> None] \<and>
           uri = filepath_Clean (''/'' @ Files (ProjectConfig env) ! i) \<and>
           uri \<noteq> [] \<and> hd uri = CHR ''/'' \<and>
           (\<forall>names. Files (ProjectConfig env) ! i = join_path names \<and> names \<noteq> []
                      \<and> list_all plain_name names
                    \<longrightarrow> uri = ''/'' @ Files (ProjectConfig env) ! i)"
proof -
  let ?p = "Files (ProjectConfig env) ! i"
  from push_command_success [OF run] obtain loc locs where
    len: "length us = length (Files (ProjectConfig env))" and
    all: "\<forall>i < length us. \<exists>fs.
            \<not> isl (filetypeForProjectFile env (Files (ProjectConfig env) ! i)) \<and>
            us ! i = (Files (ProjectConfig env) ! i,
                      PushDone fs (\<not> retracts env (fst (getPrefix env flag)) fs)) \<and>
            worker_events i (trace w) = push_events env (fst (getPrefix env flag)) loc (us ! i)"
    by blast
  from all i len prefix obtain fs where
    ft: "\<not> isl (filetypeForProjectFile env ?p)" and
    u: "us ! i = (?p, PushDone fs (\<not> retracts env [] fs))" and
    ev: "worker_events i (trace w) = push_events env [] loc (us ! i)"
    by auto
  from ft obtain t where t: "filetypeForProjectFile env ?p = Inr t"
    by (cases "filetypeForProjectFile env ?p") auto
  have up: "filter is_upload (worker_events i (trace w)) =
             [CallUpload ?p \<lparr>FileUri = filepath_Clean (''/'' @ ?p), ReqFileType = t,
                 ReqParserConfig = ParserConfig (FileConfig (ProjectConfig env))\<rparr> None]"
    using ev u t by (simp add: upload_event_def retracts_def remoteFile_def)
  have rooted: "filepath_Clean (''/'' @ ?p) \<noteq> [] \<and> hd (filepath_Clean (''/'' @ ?p)) = CHR ''/''"
    using Clean_rooted [of ?p] by simp
  have plain: "\<forall>names. ?p = join_path names \<and> names \<noteq> [] \<and> list_all plain_name names
                 \<longrightarrow> filepath_Clean (''/'' @ ?p) = ''/'' @ ?p"
    using Clean_rooted_plain by auto
  show ?thesis
    apply (rule exI [of _ t], rule exI [of _ "filepath_Clean (''/'' @ ?p)"])
    using up rooted plain by blast
qed

theorem push_empty_prefix_remote_path_witness:
  "fst (projectPushCommand (example_project [''copy.json''] [''fr-FR''] []) [] [] []) = None
   \<and> fst (getPrefix (example_project [''copy.json''] [''fr-FR''] []) []) = []
   \<and> (0::nat) < length (Files (ProjectConfig (example_project [''copy.json''] [''fr-FR''] [])))
   \<and> (\<exists>ft. filter is_upload (worker_events 0 (trace (snd (snd (projectPushCommand
                  (example_project [''copy.json''] [''fr-FR''] []) [] [] []))))) =
             [CallUpload ''copy.json''
                \<lparr>FileUri = ''/copy.json'', ReqFileType = ft, ReqParserConfig = []\<rparr> None])"
proof -
  let ?env = "example_project [''copy.json''] [''fr-FR''] []"
  let ?run = "projectPushCommand ?env [] [] []"
  have ok: "fst ?run = None" by code_simp
  have run: "?run = (None, fst (snd ?run), snd (snd ?run))"
    using ok by (rule triple_collapse)
  have prefix: "fst (getPrefix ?env []) = []" by code_simp
  have i: "(0::nat) < length (Files (ProjectConfig ?env))" by code_simp
  have p: "Files (ProjectConfig ?env) ! 0 = ''copy.json''" by code_simp
  have pc: "ParserConfig (FileConfig (ProjectConfig ?env)) = []" by code_simp
  have names: "Files (ProjectConfig ?env) ! 0 = join_path [''copy.json''] \<and> [''copy.json''] \<noteq> []
                 \<and> list_all plain_name [''copy.json'']" by code_simp
  from push_empty_prefix_remote_path [OF run prefix i] obtain ft uri where
    up: "filter is_upload (worker_events 0 (trace (snd (snd ?run)))) =
             [CallUpload (Files (ProjectConfig ?env) ! 0)
                \<lparr>FileUri = uri, ReqFileType = ft,
                 ReqParserConfig = ParserConfig (FileConfig (ProjectConfig ?env))\<rparr> None]" and
    pl: "\<forall>names. Files (ProjectConfig ?env) ! 0 = join_path names \<and> names \<noteq> []
                      \<and> list_all plain_name names
                    \<longrightarrow> uri = ''/'' @ Files (ProjectConfig ?env) ! 0"
    by blast
  have "uri = ''/'' @ Files (ProjectConfig ?env) ! 0"
    using mp [OF spec [OF pl, of "[''copy.json'']"] names] .
  then have "uri = ''/copy.json''" by (simp add: p)
  with up p pc have "\<exists>ft. filter is_upload (worker_events 0 (trace (snd (snd ?run)))) =
             [CallUpload ''copy.json''
                \<lparr>FileUri = ''/copy.json'', ReqFileType = ft, ReqParserConfig = []\<rparr> None]"
    by auto
  with ok prefix i show ?thesis by (intro conjI)
qed

text \<open>
  The claim C5 as it was stated fails: with an empty prefix the file \<^verbatim>\<open>copy.json\<close>
  is uploaded to \<^verbatim>\<open>/copy.json\<close>, which is not the project path.
\<close>

theorem push_empty_prefix_remote_path_counterexample:
  "fst (getPrefix (example_project [''copy.json''] [''fr-FR''] []) []) = []
   \<and> fst (projectPushCommand (example_project [''copy.json''] [''fr-FR''] []) [] [] []) = None
   \<and> filter is_upload (worker_events 0 (trace (snd (snd (projectPushCommand
                  (example_project [''copy.json''] [''fr-FR''] []) [] [] []))))) =
        [CallUpload ''copy.json''
           \<lparr>FileUri = ''/copy.json'', ReqFileType = ''json'', ReqParserConfig = []\<rparr> None]
   \<and> remoteFile [] ''copy.json'' \<noteq> ''copy.json''"
  by code_simp

section \<open>The status command\<close>

lemma itoa_small:
  "itoa 0 = ''0''" "itoa 1 = ''1''" "itoa 2 = ''2''" "itoa 5 = ''5''" "itoa 7 = ''7''"
  by code_simp+

lemma tabwriter_scenario:
  "tabwriter ('' '' @ tab @ ''fr-FR'' @ tab @ ''de-DE'' @ newline
              @ ''strings.json'' @ tab @ ''2->1->5'' @ tab @ ''0->0->7'' @ newline)
     = ''             fr-FR   de-DE'' @ newline @ ''strings.json 2->1->5 0->0->7'' @ newline"
  by code_simp

text \<open>
  Claim C7, as amended. Every cell of the status table is written as a tab followed by
  \<^verbatim>\<open>awaiting->inProgress->completed\<close>, the three counts in decimal with the arrows
  and no spaces: \<^verbatim>\<open>fmt.Fprint\<close> puts no space next to a string operand. With the
  locales \<^verbatim>\<open>fr-FR\<close> and \<^verbatim>\<open>de-DE\<close>, the single file \<^verbatim>\<open>strings.json\<close>, and a
  status matrix that holds the counts 2, 1, 5 for \<^verbatim>\<open>fr-FR\<close> and 0, 0, 7 for
  \<^verbatim>\<open>de-DE\<close>, the row written for the file is
  \<^verbatim>\<open>strings.json<tab>2->1->5<tab>0->0->7\<close> and the column writer prints it as
  \<^verbatim>\<open>strings.json 2->1->5 0->0->7\<close>, each cell starting in the column of its locale in
  the header line.
\<close>

theorem status_cells_rendered:
  fixes env :: "('r, 'fs) collaborators"
  assumes fr: "m ''strings.json'' ''fr-FR'' = Some fr"
    and de: "m ''strings.json'' ''de-DE'' = Some de"
    and frc: "AwaitingAuthorizationCount env fr = 2" "InProgressCount env fr = 1"
             "CompletedStringCount env fr = 5"
    and dec: "AwaitingAuthorizationCount env de = 0" "InProgressCount env de = 0"
             "CompletedStringCount env de = 7"
  shows "status_cell env status =
           tab @ itoa (AwaitingAuthorizationCount env status) @ ''->''
               @ itoa (InProgressCount env status) @ ''->''
               @ itoa (CompletedStringCount env status)
         \<and> status_row env [''fr-FR'', ''de-DE''] m ''strings.json'' =
             ''strings.json'' @ tab @ ''2->1->5'' @ tab @ ''0->0->7'' @ newline
         \<and> tabwriter (status_table env [''strings.json''] [''fr-FR'', ''de-DE''] m) =
             ''             fr-FR   de-DE'' @ newline @ ''strings.json 2->1->5 0->0->7'' @ newline"
proof -
  have cell: "\<And>s. status_cell env s =
           tab @ itoa (AwaitingAuthorizationCount env s) @ ''->''
               @ itoa (InProgressCount env s) @ ''->''
               @ itoa (CompletedStringCount env s)"
    by (simp add: status_cell_def)
  have row: "status_row env [''fr-FR'', ''de-DE''] m ''strings.json'' =
             ''strings.json'' @ tab @ ''2->1->5'' @ tab @ ''0->0->7'' @ newline"
    using fr de frc dec by (simp add: status_row_def status_entry_def cell itoa_small)
  have "status_table env [''strings.json''] [''fr-FR'', ''de-DE''] m =
          '' '' @ tab @ ''fr-FR'' @ tab @ ''de-DE'' @ newline
              @ ''strings.json'' @ tab @ ''2->1->5'' @ tab @ ''0->0->7'' @ newline"
    using row by (simp add: status_table_def status_header_def)
  then have "tabwriter (status_table env [''strings.json''] [''fr-FR'', ''de-DE''] m) =
             ''             fr-FR   de-DE'' @ newline @ ''strings.json 2->1->5 0->0->7'' @ newline"
    using tabwriter_scenario by simp
  with cell row show ?thesis by (intro conjI)
qed

theorem status_cells_rendered_witness:
  "fst (projectStatusCommand (example_project [''strings.json''] [''fr-FR'', ''de-DE''] []) [] [])
     = None
   \<and> status_matrix (snd (snd (projectStatusCommand
         (example_project [''strings.json''] [''fr-FR'', ''de-DE''] []) [] [])))
        ''strings.json'' ''fr-FR'' = Some (2, 1, 5)
   \<and> status_matrix (snd (snd (projectStatusCommand
         (example_project [''strings.json''] [''fr-FR'', ''de-DE''] []) [] [])))
        ''strings.json'' ''de-DE'' = Some (0, 0, 7)
   \<and> tabwriter (status_table (example_project [''strings.json''] [''fr-FR'', ''de-DE''] [])
        [''strings.json''] [''fr-FR'', ''de-DE'']
        (status_matrix (snd (snd (projectStatusCommand
           (example_project [''strings.json''] [''fr-FR'', ''de-DE''] []) [] [])))))
       = ''             fr-FR   de-DE'' @ newline @ ''strings.json 2->1->5 0->0->7'' @ newline"
proof -
  let ?env = "example_project [''strings.json''] [''fr-FR'', ''de-DE''] []"
  let ?w = "snd (snd (projectStatusCommand ?env [] []))"
  have ok: "fst (projectStatusCommand ?env [] []) = None" by code_simp
  have fr: "status_matrix ?w ''strings.json'' ''fr-FR'' = Some (2, 1, 5)" by code_simp
  have de: "status_matrix ?w ''strings.json'' ''de-DE'' = Some (0, 0, 7)" by code_simp
  have c1: "AwaitingAuthorizationCount ?env (2, 1, 5) = 2" by code_simp
  have c2: "InProgressCount ?env (2, 1, 5) = 1" by code_simp
  have c3: "CompletedStringCount ?env (2, 1, 5) = 5" by code_simp
  have c4: "AwaitingAuthorizationCount ?env (0, 0, 7) = 0" by code_simp
  have c5: "InProgressCount ?env (0, 0, 7) = 0" by code_simp
  have c6: "CompletedStringCount ?env (0, 0, 7) = 7" by code_simp
  note t = status_cells_rendered [where m = "status_matrix ?w" and env = ?env
      and fr = "(2, 1, 5)" and de = "(0, 0, 7)" and status = "(0, 0, 0)",
      OF fr de c1 c2 c3 c4 c5 c6]
  from ok fr de conjunct2 [OF conjunct2 [OF t]] show ?thesis by (intro conjI)
qed

text \<open>
  The claim C7 as it was stated fails: in the run of the status command in which the
  service returns 2, 1, 5 for \<^verbatim>\<open>fr-FR\<close> and 0, 0, 7 for \<^verbatim>\<open>de-DE\<close>, and the
  goroutines run one after the other, the output has the cells \<^verbatim>\<open>2->1->5\<close> and
  \<^verbatim>\<open>0->0->7\<close>; the texts \<^verbatim>\<open>2 -> 1 -> 5\<close> and \<^verbatim>\<open>0 -> 0 -> 7\<close> occur nowhere in
  it.
\<close>

theorem status_cells_rendered_counterexample:
  "fst (projectStatusCommand (example_project [''strings.json''] [''fr-FR'', ''de-DE''] []) [] [])
     = None
   \<and> (Worker 0, CallStatus ''tmp/strings.json'' ''fr-FR'' (Inr (2, 1, 5)))
        \<in> set (trace (snd (snd (projectStatusCommand
              (example_project [''strings.json''] [''fr-FR'', ''de-DE''] []) [] []))))
   \<and> (Worker 1, CallStatus ''tmp/strings.json'' ''de-DE'' (Inr (0, 0, 7)))
        \<in> set (trace (snd (snd (projectStatusCommand
              (example_project [''strings.json''] [''fr-FR'', ''de-DE''] []) [] []))))
   \<and> printed (trace (snd (snd (projectStatusCommand
              (example_project [''strings.json''] [''fr-FR'', ''de-DE''] []) [] []))))
       = newline @ status_legend @ newline @ newline
         @ ''             fr-FR   de-DE'' @ newline
         @ ''strings.json 2->1->5 0->0->7'' @ newline
   \<and> find_sub ''2 -> 1 -> 5'' (printed (trace (snd (snd (projectStatusCommand
              (example_project [''strings.json''] [''fr-FR'', ''de-DE''] []) [] []))))) = None
   \<and> find_sub ''0 -> 0 -> 7'' (printed (trace (snd (snd (projectStatusCommand
              (example_project [''strings.json''] [''fr-FR'', ''de-DE''] []) [] []))))) = None"
  by code_simp

text \<open>
  Claim C3 fails on the code. The goroutines of one file share the outer map without
  any lock. When the two goroutines of \<^verbatim>\<open>strings.json\<close> both execute the lookup of
  line 65 before either executes line 68, each creates an inner map; the goroutine of
  \<^verbatim>\<open>de-DE\<close> replaces the inner map in which the goroutine of \<^verbatim>\<open>fr-FR\<close> has stored
  its status. The run ends without a panic, the service has returned 2, 1, 5 for
  \<^verbatim>\<open>fr-FR\<close>, and the matrix has no entry for that pair: the table shows
  \<^verbatim>\<open>0->0->0\<close>, the zero value, in its place.
\<close>

theorem status_matrix_loses_an_entry:
  "fst (projectStatusCommand (example_project [''strings.json''] [''fr-FR'', ''de-DE''] [])
          [0, 0, 1, 1, 0, 0, 1, 1] []) = None
   \<and> (Worker 0, CallStatus ''tmp/strings.json'' ''fr-FR'' (Inr (2, 1, 5)))
        \<in> set (trace (snd (snd (projectStatusCommand
              (example_project [''strings.json''] [''fr-FR'', ''de-DE''] [])
              [0, 0, 1, 1, 0, 0, 1, 1] []))))
   \<and> status_matrix (snd (snd (projectStatusCommand
         (example_project [''strings.json''] [''fr-FR'', ''de-DE''] [])
         [0, 0, 1, 1, 0, 0, 1, 1] []))) ''strings.json'' ''fr-FR'' = None
   \<and> status_matrix (snd (snd (projectStatusCommand
         (example_project [''strings.json''] [''fr-FR'', ''de-DE''] [])
         [0, 0, 1, 1, 0, 0, 1, 1] []))) ''strings.json'' ''de-DE'' = Some (0, 0, 7)
   \<and> printed (trace (snd (snd (projectStatusCommand
              (example_project [''strings.json''] [''fr-FR'', ''de-DE''] [])
              [0, 0, 1, 1, 0, 0, 1, 1] []))))
       = newline @ status_legend @ newline @ newline
         @ ''             fr-FR   de-DE'' @ newline
         @ ''strings.json 0->0->0 0->0->7'' @ newline"
  by code_simp

section \<open>The destination path of a pulled file\<close>

lemma tmpl_Parse_empty: "tmpl_Parse [] = Inr []"
  by code_simp

lemma tmpl_Parse_dir_locale_base:
  "tmpl_Parse ''{{.Dir}}/{{.Locale}}/{{.Base}}'' =
     Inr [TmplField ''Dir'', TmplText ''/'', TmplField ''Locale'', TmplText ''/'', TmplField ''Base'']"
  by code_simp

lemma field_value_simps:
  "field_value parts ''Dir'' = Inr (Dir parts)"
  "field_value parts ''Locale'' = Inr (Locale parts)"
  "field_value parts ''Base'' = Inr (Base parts)"
  by (simp_all add: field_value_def)

lemma parts_a_b_json:
  "filepath_Dir ''a/b.json'' = ''a''" "filepath_Base ''a/b.json'' = ''b.json''"
  by code_simp+

lemma rel_a_fr_b: "filepath_Rel_dot (filepath_Join [''.'', ''a/fr-FR/b.json'']) = Inr ''a/fr-FR/b.json''"
  by code_simp

lemma rel_root: "filepath_Rel_dot (filepath_Join [''.'', []]) = Inr ''.''"
  by code_simp

text \<open>
  Claim C9. With the configured template \<^verbatim>\<open>{{.Dir}}/{{.Locale}}/{{.Base}}\<close> (and a
  non-empty constant \<^verbatim>\<open>defaultPullDestination\<close>, without which line 251 leaves the
  configured template unused), the destination of a file and a locale is the directory of
  the file, the locale and the base name of the file, joined by separators and made
  relative to the working directory through the project root. For the project path
  \<^verbatim>\<open>a/b.json\<close> and the locale \<^verbatim>\<open>fr-FR\<close> this is \<^verbatim>\<open>a/fr-FR/b.json\<close> under the
  project root, and \<^verbatim>\<open>a/fr-FR/b.json\<close> itself when the project root is the working
  directory.
\<close>

theorem pull_path_dir_locale_base:
  fixes env :: "('r, 'fs) collaborators"
  assumes tmpl: "PullFilePath (FileConfig (ProjectConfig env)) = ''{{.Dir}}/{{.Locale}}/{{.Base}}''"
    and dflt: "defaultPullDestination env \<noteq> []"
  shows "localPullFilePath env p l =
           localRelativeFilePath env (filepath_Dir p @ ''/'' @ l @ ''/'' @ filepath_Base p)
         \<and> localPullFilePath env ''a/b.json'' ''fr-FR'' = localRelativeFilePath env ''a/fr-FR/b.json''
         \<and> (path (ProjectConfig env) = ''.''
              \<longrightarrow> localPullFilePath env ''a/b.json'' ''fr-FR'' = Inr ''a/fr-FR/b.json'')"
proof -
  have gen: "\<And>p l. localPullFilePath env p l =
           localRelativeFilePath env (filepath_Dir p @ ''/'' @ l @ ''/'' @ filepath_Base p)"
    using tmpl dflt
    by (simp add: localPullFilePath_def Let_def tmpl_Parse_dir_locale_base field_value_simps)
  have inst: "localPullFilePath env ''a/b.json'' ''fr-FR'' = localRelativeFilePath env ''a/fr-FR/b.json''"
    by (simp add: gen parts_a_b_json)
  have root: "path (ProjectConfig env) = ''.''
              \<longrightarrow> localPullFilePath env ''a/b.json'' ''fr-FR'' = Inr ''a/fr-FR/b.json''"
    using rel_a_fr_b by (simp add: inst localRelativeFilePath_def)
  from gen inst root show ?thesis by (intro conjI)
qed

theorem pull_path_dir_locale_base_witness:
  "PullFilePath (FileConfig (ProjectConfig
      (example_project [''a/b.json''] [''fr-FR''] ''{{.Dir}}/{{.Locale}}/{{.Base}}'')))
     = ''{{.Dir}}/{{.Locale}}/{{.Base}}''
   \<and> defaultPullDestination
        (example_project [''a/b.json''] [''fr-FR''] ''{{.Dir}}/{{.Locale}}/{{.Base}}'') \<noteq> []
   \<and> path (ProjectConfig
        (example_project [''a/b.json''] [''fr-FR''] ''{{.Dir}}/{{.Locale}}/{{.Base}}'')) = ''.''
   \<and> localPullFilePath
        (example_project [''a/b.json''] [''fr-FR''] ''{{.Dir}}/{{.Locale}}/{{.Base}}'')
        ''a/b.json'' ''fr-FR'' = Inr ''a/fr-FR/b.json''"
proof -
  let ?env = "example_project [''a/b.json''] [''fr-FR''] ''{{.Dir}}/{{.Locale}}/{{.Base}}''"
  have tmpl: "PullFilePath (FileConfig (ProjectConfig ?env)) = ''{{.Dir}}/{{.Locale}}/{{.Base}}''"
    by code_simp
  have dflt: "defaultPullDestination ?env \<noteq> []" by code_simp
  have root: "path (ProjectConfig ?env) = ''.''" by code_simp
  note t = pull_path_dir_locale_base [OF tmpl dflt, of "''a/b.json''" "''fr-FR''"]
  have "localPullFilePath ?env ''a/b.json'' ''fr-FR'' = Inr ''a/fr-FR/b.json''"
    using mp [OF conjunct2 [OF conjunct2 [OF t]] root] .
  with tmpl dflt root show ?thesis by (intro conjI)
qed

text \<open>
  Claim C8 fails on the code. Lines 250 to 253 take the default template and then, when
  the default is not empty, replace it by the configured one, whether that is empty or
  not; when the default is empty it stays empty. So with no template configured the
  template that is rendered is the empty string, and every file and locale get the same
  destination: the project root itself, \<^verbatim>\<open>.\<close> when the root is the working
  directory, and not the project-relative path of the file.
\<close>

theorem pull_path_without_template:
  fixes env :: "('r, 'fs) collaborators"
  assumes none: "PullFilePath (FileConfig (ProjectConfig env)) = []"
  shows "localPullFilePath env p l = localRelativeFilePath env []
         \<and> (path (ProjectConfig env) = ''.'' \<longrightarrow> localPullFilePath env p l = Inr ''.'')"
proof -
  have gen: "localPullFilePath env p l = localRelativeFilePath env []"
    using none by (simp add: localPullFilePath_def Let_def tmpl_Parse_empty)
  have "path (ProjectConfig env) = ''.'' \<longrightarrow> localPullFilePath env p l = Inr ''.''"
    using rel_root by (simp add: gen localRelativeFilePath_def)
  with gen show ?thesis by (intro conjI)
qed

theorem pull_path_without_template_witness:
  "PullFilePath (FileConfig (ProjectConfig (example_project [''a/b.json''] [''fr-FR''] []))) = []
   \<and> path (ProjectConfig (example_project [''a/b.json''] [''fr-FR''] [])) = ''.''
   \<and> localPullFilePath (example_project [''a/b.json''] [''fr-FR''] []) ''a/b.json'' ''fr-FR''
       = Inr ''.''
   \<and> localRelativeFilePath (example_project [''a/b.json''] [''fr-FR''] []) ''a/b.json''
       = Inr ''a/b.json''"
proof -
  let ?env = "example_project [''a/b.json''] [''fr-FR''] []"
  have none: "PullFilePath (FileConfig (ProjectConfig ?env)) = []" by code_simp
  have root: "path (ProjectConfig ?env) = ''.''" by code_simp
  have rel: "localRelativeFilePath ?env ''a/b.json'' = Inr ''a/b.json''" by code_simp
  note t = pull_path_without_template [OF none, of "''a/b.json''" "''fr-FR''"]
  have "localPullFilePath ?env ''a/b.json'' ''fr-FR'' = Inr ''.''"
    using mp [OF conjunct2 [OF t] root] .
  with none root rel show ?thesis by (intro conjI)
qed

section \<open>Pulling twice\<close>

lemma trace_emit: "trace (emit who e r w) = trace w @ [(who, e)]"
  by (simp add: emit_def)

lemma cache_emit: "cache (emit who e r w) = cache w"
  by (simp add: emit_def)

lemma remote_emit: "remote (emit who e r w) = r"
  by (simp add: emit_def)

lemma pull_pair_first:
  fixes env :: "('r, 'fs) collaborators"
  assumes first: "pull_pair env i l p w0 = (None, st1, w1)"
  shows "\<exists>k fp b pre.
           pull_cache_key env l p = Some k \<and> localPullFilePath env p l = Inr fp \<and>
           cache w1 k = Some b \<and> length pre \<le> 1 \<and>
           trace w1 = trace w0 @ pre
             @ [(Worker i, Print (Println [fp, if pre = [] then ''(using cache)'' else []])),
                (Worker i, WriteFile fp b None)]"
proof -
  from first obtain lp where lp: "localRelativeFilePath env p = Inr lp"
    by (cases "localRelativeFilePath env p") (auto simp: pull_pair_def)
  from first lp obtain ft where ft: "filetypeForProjectFile env p = Inr ft"
    by (cases "filetypeForProjectFile env p") (auto simp: pull_pair_def)
  let ?k = "(l, lp, ft, ParserConfig (FileConfig (ProjectConfig env)))"
  have key: "pull_cache_key env l p = Some ?k" by (simp add: pull_cache_key_def lp ft)
  from first lp ft obtain fp where fp: "localPullFilePath env p l = Inr fp"
    by (cases "localPullFilePath env p l")
       (auto simp: pull_pair_def translateViaCache_def Let_def
             split: option.splits prod.splits sum.splits)
  show ?thesis
  proof (cases "cache w0 ?k")
    case (Some b)
    with first lp ft fp have
      "cache w1 ?k = Some b \<and>
       trace w1 = trace w0 @ []
             @ [(Worker i, Print (Println [fp, ''(using cache)''])),
                (Worker i, WriteFile fp b None)]"
      by (auto simp: pull_pair_def translateViaCache_def Let_def trace_emit cache_emit
               split: option.splits prod.splits sum.splits)
    with key fp show ?thesis
      by (intro exI [of _ ?k] exI [of _ fp] exI [of _ b] exI [of _ "[]"]) simp
  next
    case None
    obtain res r' where fr: "fresh_retrieval env l lp ft (ParserConfig (FileConfig (ProjectConfig env)))
                               (remote w0) = (res, r')"
      by (cases "fresh_retrieval env l lp ft (ParserConfig (FileConfig (ProjectConfig env))) (remote w0)")
    from first lp ft fp None fr obtain b where b: "res = Inr b"
      by (cases res)
         (auto simp: pull_pair_def translateViaCache_def Let_def
               split: option.splits prod.splits sum.splits)
    with first lp ft fp None fr have
      "cache w1 ?k = Some b \<and>
       trace w1 = trace w0 @ [(Worker i, CallRetrieve l lp (Inr b))]
             @ [(Worker i, Print (Println [fp, []])),
                (Worker i, WriteFile fp b None)]"
      by (auto simp: pull_pair_def translateViaCache_def Let_def trace_emit cache_emit
               split: option.splits prod.splits sum.splits)
    with key fp show ?thesis
      by (intro exI [of _ ?k] exI [of _ fp] exI [of _ b]
                exI [of _ "[(Worker i, CallRetrieve l lp (Inr b))]"]) simp
  qed
qed

lemma pull_pair_hit:
  fixes env :: "('r, 'fs) collaborators"
  assumes key: "pull_cache_key env l p = Some k"
    and fp: "localPullFilePath env p l = Inr fp"
    and hit: "cache w2 k = Some b"
  shows "trace (snd (snd (pull_pair env j l p w2))) =
           trace w2 @ [(Worker j, Print (Println [fp, ''(using cache)''])),
                       (Worker j, WriteFile fp b (fst (ioutil_WriteFile env fp b (remote w2))))]
         \<and> fst (pull_pair env j l p w2) =
             map_option PanicErr (fst (ioutil_WriteFile env fp b (remote w2)))"
proof -
  from key obtain lp ft where lp: "localRelativeFilePath env p = Inr lp"
    and ft: "filetypeForProjectFile env p = Inr ft"
    and k: "k = (l, lp, ft, ParserConfig (FileConfig (ProjectConfig env)))"
    by (auto simp: pull_cache_key_def split: sum.splits)
  show ?thesis
    using lp ft k fp hit
    by (cases "ioutil_WriteFile env fp b (remote w2)")
       (auto simp: pull_pair_def translateViaCache_def Let_def trace_emit remote_emit
             split: option.splits prod.splits sum.splits)
qed

text \<open>
  Claim C4. When the pull of a locale and file has run to its end without a panic, and
  the cache entry of its key is still the same when the same locale and file are pulled
  again (whatever else has changed in between), the second pull reports
  \<^verbatim>\<open>(using cache)\<close> for the same destination path and writes the same bytes to that
  path as the first one did. The second pull retrieves nothing from the service, and it
  can only fail in the write itself.
\<close>

theorem pull_twice_hits_cache:
  fixes env :: "('r, 'fs) collaborators"
  assumes first: "pull_pair env i l p w0 = (None, st1, w1)"
    and key: "pull_cache_key env l p = Some k"
    and kept: "cache w2 k = cache w1 k"
  shows "\<exists>fp b pre.
           length pre \<le> 1 \<and>
           trace w1 = trace w0 @ pre
             @ [(Worker i, Print (Println [fp, if pre = [] then ''(using cache)'' else []])),
                (Worker i, WriteFile fp b None)] \<and>
           trace (snd (snd (pull_pair env j l p w2))) =
             trace w2 @ [(Worker j, Print (Println [fp, ''(using cache)''])),
                         (Worker j, WriteFile fp b (fst (ioutil_WriteFile env fp b (remote w2))))] \<and>
           fst (pull_pair env j l p w2) =
             map_option PanicErr (fst (ioutil_WriteFile env fp b (remote w2)))"
proof -
  from pull_pair_first [OF first] key obtain fp b pre where
    fp: "localPullFilePath env p l = Inr fp" and
    c: "cache w1 k = Some b" and
    pre: "length pre \<le> 1" and
    tr: "trace w1 = trace w0 @ pre
             @ [(Worker i, Print (Println [fp, if pre = [] then ''(using cache)'' else []])),
                (Worker i, WriteFile fp b None)]"
    by auto
  from c kept have hit: "cache w2 k = Some b" by simp
  note h = pull_pair_hit [OF key fp hit, of j]
  show ?thesis
    using pre tr h by (intro exI [of _ fp] exI [of _ b] exI [of _ pre]) simp
qed

theorem pull_twice_hits_cache_witness:
  "fst (pull_pair (example_project [''a/b.json''] [''fr-FR''] ''{{.Dir}}/{{.Locale}}/{{.Base}}'')
          0 ''fr-FR'' ''a/b.json'' \<lparr>remote = [], trace = [], cache = Map.empty\<rparr>) = None
   \<and> pull_cache_key (example_project [''a/b.json''] [''fr-FR''] ''{{.Dir}}/{{.Locale}}/{{.Base}}'')
        ''fr-FR'' ''a/b.json'' = Some (''fr-FR'', ''a/b.json'', ''json'', [])
   \<and> trace (snd (snd (pull_pair
          (example_project [''a/b.json''] [''fr-FR''] ''{{.Dir}}/{{.Locale}}/{{.Base}}'')
          1 ''fr-FR'' ''a/b.json''
          (snd (snd (pull_pair
             (example_project [''a/b.json''] [''fr-FR''] ''{{.Dir}}/{{.Locale}}/{{.Base}}'')
             0 ''fr-FR'' ''a/b.json'' \<lparr>remote = [], trace = [], cache = Map.empty\<rparr>))))))
       = [(Worker 0, CallRetrieve ''fr-FR'' ''a/b.json'' (Inr ''a/b.json in fr-FR'')),
          (Worker 0, Print (Println [''a/fr-FR/b.json'', []])),
          (Worker 0, WriteFile ''a/fr-FR/b.json'' ''a/b.json in fr-FR'' None),
          (Worker 1, Print (Println [''a/fr-FR/b.json'', ''(using cache)''])),
          (Worker 1, WriteFile ''a/fr-FR/b.json'' ''a/b.json in fr-FR'' None)]"
proof -
  let ?env = "example_project [''a/b.json''] [''fr-FR''] ''{{.Dir}}/{{.Locale}}/{{.Base}}''"
  let ?w0 = "\<lparr>remote = [], trace = [], cache = Map.empty\<rparr>
               :: (string list, int \<times> int \<times> int) pull_world"
  let ?x = "pull_pair ?env 0 ''fr-FR'' ''a/b.json'' ?w0"
  let ?w1 = "snd (snd ?x)"
  have ok: "fst ?x = None" by code_simp
  have first: "?x = (None, fst (snd ?x), ?w1)" using ok by (rule triple_collapse)
  have key: "pull_cache_key ?env ''fr-FR'' ''a/b.json'' = Some (''fr-FR'', ''a/b.json'', ''json'', [])"
    by code_simp
  have tr1: "trace ?w1 =
      [(Worker 0, CallRetrieve ''fr-FR'' ''a/b.json'' (Inr ''a/b.json in fr-FR'')),
       (Worker 0, Print (Println [''a/fr-FR/b.json'', []])),
       (Worker 0, WriteFile ''a/fr-FR/b.json'' ''a/b.json in fr-FR'' None)]"
    by code_simp
  have wr: "fst (ioutil_WriteFile ?env ''a/fr-FR/b.json'' ''a/b.json in fr-FR'' (remote ?w1)) = None"
    by code_simp
  from pull_twice_hits_cache [OF first key refl, of 1] obtain fp b pre where
    a: "trace ?w1 = trace ?w0 @ pre
             @ [(Worker 0, Print (Println [fp, if pre = [] then ''(using cache)'' else []])),
                (Worker 0, WriteFile fp b None)]" and
    c: "trace (snd (snd (pull_pair ?env 1 ''fr-FR'' ''a/b.json'' ?w1))) =
             trace ?w1 @ [(Worker 1, Print (Println [fp, ''(using cache)''])),
                         (Worker 1, WriteFile fp b (fst (ioutil_WriteFile ?env fp b (remote ?w1))))]"
    by blast
  from a have "last (trace ?w1) = (Worker 0, WriteFile fp b None)" by simp
  with tr1 have fb: "fp = ''a/fr-FR/b.json'' \<and> b = ''a/b.json in fr-FR''" by simp
  from c fb wr tr1 have "trace (snd (snd (pull_pair ?env 1 ''fr-FR'' ''a/b.json'' ?w1))) =
       [(Worker 0, CallRetrieve ''fr-FR'' ''a/b.json'' (Inr ''a/b.json in fr-FR'')),
          (Worker 0, Print (Println [''a/fr-FR/b.json'', []])),
          (Worker 0, WriteFile ''a/fr-FR/b.json'' ''a/b.json in fr-FR'' None),
          (Worker 1, Print (Println [''a/fr-FR/b.json'', ''(using cache)''])),
          (Worker 1, WriteFile ''a/fr-FR/b.json'' ''a/b.json in fr-FR'' None)]"
    by simp
  with ok key show ?thesis by (intro conjI)
qed

end
